theory Spec2Isabelle
  imports Main "HOL-Library.Sublist"
begin

section \<open>JavaScript strings and values\<close>

text \<open>
  Strings are lists of 8-bit characters: the development covers JavaScript strings whose
  code units are below 256. \<open>js_space\<close> is the part of the class \<open>\s\<close> (white space
  and line terminators) in that range; \<open>String.prototype.trim\<close> strips the same class.
\<close>

definition NL :: char where
  "NL = CHR 0x0A"

definition js_space :: "char \<Rightarrow> bool" where
  "js_space c = (c \<in> set [CHR 0x09, CHR 0x0A, CHR 0x0B, CHR 0x0C, CHR 0x0D, CHR 0x20, CHR 0xA0])"

definition trim :: "string \<Rightarrow> string" where
  "trim s = rev (dropWhile js_space (rev (dropWhile js_space s)))"

text \<open>\<open>s.includes(sub)\<close>: \<open>sub\<close> occurs in \<open>s\<close> as a contiguous block.\<close>

fun js_includes :: "string \<Rightarrow> string \<Rightarrow> bool" where
  "js_includes [] sub = (sub = [])"
| "js_includes (c # cs) sub = (take (length sub) (c # cs) = sub \<or> js_includes cs sub)"

text \<open>
  A value produced by \<open>JSON.parse\<close>. A number is kept as \<open>m\<close> times ten to the \<open>e\<close>;
  an object is the list of its members in source order, a later duplicate key winning.
\<close>

datatype json =
    JNull
  | JBool bool
  | JNumber int int
  | JString string
  | JArray "json list"
  | JObject "(string \<times> json) list"

text \<open>
  Property read \<open>v.k\<close> on a non-null value, for the member names the scripts read (none
  of them is inherited or built in); \<open>None\<close> is \<open>undefined\<close>.
\<close>

fun get_prop :: "json \<Rightarrow> string \<Rightarrow> json option" where
  "get_prop (JObject kvs) k = map_of (rev kvs) k"
| "get_prop v k = None"

text \<open>
  \<open>ToBoolean\<close>. A number is falsy when its double is zero, which is when its magnitude
  is at most \<open>2^-1075\<close> (round to nearest, ties to even).
\<close>

fun truthy :: "json \<Rightarrow> bool" where
  "truthy JNull = False"
| "truthy (JBool b) = b"
| "truthy (JNumber m e) = (m \<noteq> 0 \<and> (0 \<le> e \<or> 10 ^ nat (- e) < \<bar>m\<bar> * 2 ^ 1075))"
| "truthy (JString s) = (s \<noteq> [])"
| "truthy (JArray xs) = True"
| "truthy (JObject kvs) = True"

definition truthy_opt :: "json option \<Rightarrow> bool" where
  "truthy_opt v = (case v of None \<Rightarrow> False | Some x \<Rightarrow> truthy x)"

section \<open>Review Response Parser (scripts/ai-review.js, parseGeminiResponse)\<close>

text \<open>
  \<open>JSON.parse\<close> belongs to the runtime, so the parser takes it as the parameter
  \<open>P\<close>: \<open>P s = None\<close> when \<open>JSON.parse(s)\<close> throws, \<open>Some v\<close> when it returns \<open>v\<close>.
\<close>

type_synonym json_parse = "string \<Rightarrow> json option"

subsection \<open>Strategy 2: the fenced-block regular expression\<close>

text \<open>
  A backtracking matcher maps a subject to the remainders it can leave, in the order in
  which the engine tries them. The pieces below are those the pattern
  \<^verbatim>\<open>/```(?:json)?\s*\n(\{[\s\S]*?\})\s*\n```/\<close> is built from.
\<close>

type_synonym matcher = "string \<Rightarrow> string list"

definition lit :: "string \<Rightarrow> matcher" where
  "lit p s = (if take (length p) s = p then [drop (length p) s] else [])"

definition seq :: "matcher \<Rightarrow> matcher \<Rightarrow> matcher" where
  "seq m1 m2 s = concat (map m2 (m1 s))"

definition opt :: "matcher \<Rightarrow> matcher" where
  "opt m s = m s @ [s]"

text \<open>Greedy \<open>c*\<close> tries the longest run first; lazy \<open>c*?\<close> the shortest.\<close>

fun star_greedy :: "(char \<Rightarrow> bool) \<Rightarrow> matcher" where
  "star_greedy p [] = [[]]"
| "star_greedy p (c # cs) = (if p c then star_greedy p cs else []) @ [c # cs]"

fun star_lazy :: "(char \<Rightarrow> bool) \<Rightarrow> matcher" where
  "star_lazy p [] = [[]]"
| "star_lazy p (c # cs) = (c # cs) # (if p c then star_lazy p cs else [])"

definition fence_open :: matcher where
  "fence_open = seq (lit ''```'') (seq (opt (lit ''json'')) (seq (star_greedy js_space) (lit [NL])))"

definition fence_group :: matcher where
  "fence_group = seq (lit ''{'') (seq (star_lazy (\<lambda>c. True)) (lit ''}''))"

definition fence_close :: matcher where
  "fence_close = seq (star_greedy js_space) (seq (lit [NL]) (lit ''```''))"

text \<open>
  The pattern anchored at the start of \<open>s\<close>: the first way, in backtracking order, to
  match opening, group and closing; the result is the text of group 1.
\<close>

definition fence_at :: "string \<Rightarrow> string option" where
  "fence_at s =
     (case concat (map (\<lambda>r1. concat (map (\<lambda>r2. if fence_close r2 = [] then []
                                                 else [take (length r1 - length r2) r1])
                                      (fence_group r1)))
                       (fence_open s)) of
        [] \<Rightarrow> None
      | g # _ \<Rightarrow> Some g)"

text \<open>\<open>response.match(...)\<close>: the leftmost position at which the pattern matches.\<close>

fun fencedMatch :: "string \<Rightarrow> string option" where
  "fencedMatch [] = fence_at []"
| "fencedMatch (c # cs) = (case fence_at (c # cs) of Some g \<Rightarrow> Some g | None \<Rightarrow> fencedMatch cs)"

subsection \<open>Strategy 3: balanced braces\<close>

text \<open>
  The loop from \<open>start\<close>: \<open>seen\<close> is \<open>response.substring(start, i)\<close>. It stops at the
  first index where \<open>depth\<close> is zero and yields \<open>response.substring(start, i + 1)\<close>;
  \<open>None\<close> when the text ends first.
\<close>

fun brace_scan :: "int \<Rightarrow> string \<Rightarrow> string \<Rightarrow> string option" where
  "brace_scan depth seen [] = None"
| "brace_scan depth seen (c # cs) =
     (let depth' = (if c = CHR ''{'' then depth + 1
                    else if c = CHR ''}'' then depth - 1 else depth)
      in if depth' = 0 then Some (seen @ [c]) else brace_scan depth' (seen @ [c]) cs)"

text \<open>
  The nesting depth of a text counted on its characters alone, wherever they stand: the
  number of its opening braces less the number of its closing ones. A text closes at
  its end when its depth is zero and the depth of each of its shorter, non-empty
  prefixes is positive.
\<close>

definition brace_depth :: "string \<Rightarrow> int" where
  "brace_depth s = int (count_list s (CHR ''{'')) - int (count_list s (CHR ''}''))"

definition closes_at_end :: "string \<Rightarrow> bool" where
  "closes_at_end p = (brace_depth p = 0 \<and> (\<forall>n\<in>{1..<length p}. 0 < brace_depth (take n p)))"

definition strategy1 :: "json_parse \<Rightarrow> string \<Rightarrow> json option" where
  "strategy1 P response = P (trim response)"

definition strategy2 :: "json_parse \<Rightarrow> string \<Rightarrow> json option" where
  "strategy2 P response = (case fencedMatch response of None \<Rightarrow> None | Some g \<Rightarrow> P g)"

definition strategy3 :: "json_parse \<Rightarrow> string \<Rightarrow> json option" where
  "strategy3 P response =
     (case dropWhile (\<lambda>c. c \<noteq> CHR ''{'') response of
        [] \<Rightarrow> None
      | s \<Rightarrow> (case brace_scan 0 [] s of None \<Rightarrow> None | Some sub \<Rightarrow> P sub))"

definition rawFallback :: "string \<Rightarrow> json" where
  "rawFallback response =
     JObject [(''summary'', JString response), (''issues'', JArray []), (''raw'', JBool True)]"

definition parseGeminiResponse :: "json_parse \<Rightarrow> string \<Rightarrow> json" where
  "parseGeminiResponse P response =
     (case strategy1 P response of
        Some v \<Rightarrow> v
      | None \<Rightarrow>
          (case strategy2 P response of
             Some v \<Rightarrow> v
           | None \<Rightarrow>
               (case strategy3 P response of
                  Some v \<Rightarrow> v
                | None \<Rightarrow> rawFallback response)))"

section \<open>A reader for JSON texts\<close>

text \<open>
  The JSON grammar, as \<open>JSON.parse\<close> reads it, for the concrete runs below. The fuel
  bounds the nesting of recursive calls; each call follows at least one consumed
  character, so the length of the text is enough. An escape \<open>\uXXXX\<close> of a code unit
  above 255 names a character outside the 8-bit strings and is not read.
\<close>

definition json_ws :: "char \<Rightarrow> bool" where
  "json_ws c = (c \<in> set [CHR 0x20, CHR 0x09, CHR 0x0A, CHR 0x0D])"

definition skip_ws :: "string \<Rightarrow> string" where
  "skip_ws s = dropWhile json_ws s"

definition is_digit :: "char \<Rightarrow> bool" where
  "is_digit c = (c \<in> set ''0123456789'')"

definition digits_val :: "string \<Rightarrow> nat" where
  "digits_val ds = foldl (\<lambda>a c. 10 * a + (of_char c - 48)) 0 ds"

definition hex_val :: "char \<Rightarrow> nat option" where
  "hex_val c =
     (if is_digit c then Some (of_char c - 48)
      else if c \<in> set ''abcdef'' then Some (of_char c - 87)
      else if c \<in> set ''ABCDEF'' then Some (of_char c - 55)
      else None)"

definition hex4 :: "char \<Rightarrow> char \<Rightarrow> char \<Rightarrow> char \<Rightarrow> nat option" where
  "hex4 a b c d =
     (case (hex_val a, hex_val b, hex_val c, hex_val d) of
        (Some w, Some x, Some y, Some z) \<Rightarrow> Some (((w * 16 + x) * 16 + y) * 16 + z)
      | _ \<Rightarrow> None)"

definition unescape :: "char \<Rightarrow> char option" where
  "unescape e =
     (if e = CHR 0x22 then Some (CHR 0x22)
      else if e = CHR 0x5C then Some (CHR 0x5C)
      else if e = CHR ''/'' then Some (CHR ''/'')
      else if e = CHR ''b'' then Some (CHR 0x08)
      else if e = CHR ''f'' then Some (CHR 0x0C)
      else if e = CHR ''n'' then Some (CHR 0x0A)
      else if e = CHR ''r'' then Some (CHR 0x0D)
      else if e = CHR ''t'' then Some (CHR 0x09)
      else None)"

definition consed :: "'a \<Rightarrow> ('a list \<times> string) option \<Rightarrow> ('a list \<times> string) option" where
  "consed x r = (case r of None \<Rightarrow> None | Some (xs, rest) \<Rightarrow> Some (x # xs, rest))"

text \<open>The characters of a string after its opening quote, up to the closing one.\<close>

fun parse_chars :: "string \<Rightarrow> (string \<times> string) option" where
  "parse_chars [] = None"
| "parse_chars (c # cs) =
     (if c = CHR 0x22 then Some ([], cs)
      else if c = CHR 0x5C then
        (case cs of
           [] \<Rightarrow> None
         | e # r \<Rightarrow>
             if e = CHR ''u'' then
               (case r of
                  h1 # h2 # h3 # h4 # r' \<Rightarrow>
                    (case hex4 h1 h2 h3 h4 of
                       None \<Rightarrow> None
                     | Some n \<Rightarrow> if n < 256 then consed (char_of n) (parse_chars r') else None)
                | _ \<Rightarrow> None)
             else (case unescape e of None \<Rightarrow> None | Some d \<Rightarrow> consed d (parse_chars r)))
      else if of_char c < (32 :: nat) then None
      else consed c (parse_chars cs))"

text \<open>\<open>-? (0 | [1-9][0-9]*) (. [0-9]+)? ([eE] [+-]? [0-9]+)?\<close>\<close>

definition parse_number :: "string \<Rightarrow> (json \<times> string) option" where
  "parse_number s =
     (let neg = (take 1 s = ''-'');
          s1 = (if neg then drop 1 s else s);
          ip = takeWhile is_digit s1;
          s2 = dropWhile is_digit s1;
          dot = (take 1 s2 = ''.'');
          fp = (if dot then takeWhile is_digit (drop 1 s2) else []);
          s3 = (if dot then dropWhile is_digit (drop 1 s2) else s2);
          ex = (take 1 s3 = ''e'' \<or> take 1 s3 = ''E'');
          s4 = (if ex then drop 1 s3 else s3);
          eneg = (ex \<and> take 1 s4 = ''-'');
          s5 = (if ex \<and> (take 1 s4 = ''-'' \<or> take 1 s4 = ''+'') then drop 1 s4 else s4);
          ep = (if ex then takeWhile is_digit s5 else []);
          s6 = (if ex then dropWhile is_digit s5 else s5);
          m = int (digits_val (ip @ fp));
          e = int (digits_val ep)
      in if ip = [] \<or> (1 < length ip \<and> take 1 ip = ''0'') \<or> (dot \<and> fp = []) \<or> (ex \<and> ep = [])
         then None
         else Some (JNumber (if neg then - m else m) ((if eneg then - e else e) - int (length fp)), s6))"

definition mapped :: "('a \<Rightarrow> json) \<Rightarrow> ('a \<times> string) option \<Rightarrow> (json \<times> string) option" where
  "mapped f r = (case r of None \<Rightarrow> None | Some (x, rest) \<Rightarrow> Some (f x, rest))"

fun parse_value :: "nat \<Rightarrow> string \<Rightarrow> (json \<times> string) option"
  and parse_elems :: "nat \<Rightarrow> string \<Rightarrow> (json list \<times> string) option"
  and parse_members :: "nat \<Rightarrow> string \<Rightarrow> ((string \<times> json) list \<times> string) option"
where
  "parse_value 0 s = None"
| "parse_value (Suc n) s =
     (case skip_ws s of
        [] \<Rightarrow> None
      | c # r \<Rightarrow>
          if c = CHR ''{'' then
            (if take 1 (skip_ws r) = ''}'' then Some (JObject [], drop 1 (skip_ws r))
             else mapped JObject (parse_members n r))
          else if c = CHR ''['' then
            (if take 1 (skip_ws r) = '']'' then Some (JArray [], drop 1 (skip_ws r))
             else mapped JArray (parse_elems n r))
          else if c = CHR 0x22 then mapped JString (parse_chars r)
          else if c = CHR ''-'' \<or> is_digit c then parse_number (c # r)
          else if take 4 (c # r) = ''true'' then Some (JBool True, drop 4 (c # r))
          else if take 5 (c # r) = ''false'' then Some (JBool False, drop 5 (c # r))
          else if take 4 (c # r) = ''null'' then Some (JNull, drop 4 (c # r))
          else None)"
| "parse_elems 0 s = None"
| "parse_elems (Suc n) s =
     (case parse_value n s of
        None \<Rightarrow> None
      | Some (v, r) \<Rightarrow>
          if take 1 (skip_ws r) = '','' then consed v (parse_elems n (drop 1 (skip_ws r)))
          else if take 1 (skip_ws r) = '']'' then Some ([v], drop 1 (skip_ws r))
          else None)"
| "parse_members 0 s = None"
| "parse_members (Suc n) s =
     (if take 1 (skip_ws s) = [CHR 0x22] then
        (case parse_chars (drop 1 (skip_ws s)) of
           None \<Rightarrow> None
         | Some (k, r1) \<Rightarrow>
             if take 1 (skip_ws r1) = '':'' then
               (case parse_value n (drop 1 (skip_ws r1)) of
                  None \<Rightarrow> None
                | Some (v, r3) \<Rightarrow>
                    if take 1 (skip_ws r3) = '','' then
                      consed (k, v) (parse_members n (drop 1 (skip_ws r3)))
                    else if take 1 (skip_ws r3) = ''}'' then Some ([(k, v)], drop 1 (skip_ws r3))
                    else None)
             else None)
      else None)"

definition JSON_parse :: json_parse where
  "JSON_parse s =
     (case parse_value (Suc (length s)) s of
        None \<Rightarrow> None
      | Some (v, r) \<Rightarrow> if skip_ws r = [] then Some v else None)"


section \<open>Reviewer Client and review run (scripts/ai-review.js)\<close>

text \<open>
  \<open>v[0]\<close> on a non-null value, and whether converting a value to a string (as string
  concatenation does) raises a \<open>TypeError\<close>: an object read from JSON converts unless
  it has a member of its own named \<open>toString\<close>; an array converts its entries.
\<close>

fun idx0 :: "json \<Rightarrow> json option" where
  "idx0 (JArray xs) = (case xs of [] \<Rightarrow> None | x # _ \<Rightarrow> Some x)"
| "idx0 (JString s) = (case s of [] \<Rightarrow> None | c # _ \<Rightarrow> Some (JString [c]))"
| "idx0 (JObject kvs) = map_of (rev kvs) ''0''"
| "idx0 v = None"

fun str_throws :: "json \<Rightarrow> bool" where
  "str_throws (JObject kvs) = (''toString'' \<in> set (map fst kvs))"
| "str_throws (JArray xs) = (\<exists>x\<in>set xs. str_throws x)"
| "str_throws v = False"

text \<open>
  \<open>callGemini\<close>. The request ends with a socket error, with no reply within 30 seconds,
  or with a reply body. The promise is rejected (\<open>Inl\<close>) or resolved with
  \<open>parts[0].text\<close>, which may be \<open>undefined\<close> (\<open>None\<close>).
\<close>

datatype http_outcome = SocketError string | NoReplyIn30s | Body string

datatype rejection = Timeout | RequestFailed string | ApiError | UnexpectedFormat | ParseFailure

definition callGemini :: "json_parse \<Rightarrow> http_outcome \<Rightarrow> rejection + json option" where
  "callGemini P h =
     (case h of
        SocketError m \<Rightarrow> Inl (RequestFailed m)
      | NoReplyIn30s \<Rightarrow> Inl Timeout
      | Body data \<Rightarrow>
          (case P data of
             None \<Rightarrow> Inl ParseFailure
           | Some response \<Rightarrow>
               if response = JNull then Inl ParseFailure
               else if truthy_opt (get_prop response ''error'') then
                 (case get_prop (the (get_prop response ''error'')) ''message'' of
                    None \<Rightarrow> Inl ApiError
                  | Some m \<Rightarrow> if str_throws m then Inl ParseFailure else Inl ApiError)
               else
                 (case get_prop response ''candidates'' of
                    None \<Rightarrow> Inl UnexpectedFormat
                  | Some cs \<Rightarrow>
                      if \<not> truthy cs \<or> \<not> truthy_opt (idx0 cs) then Inl UnexpectedFormat
                      else
                        (case get_prop (the (idx0 cs)) ''content'' of
                           None \<Rightarrow> Inl UnexpectedFormat
                         | Some content \<Rightarrow>
                             if \<not> truthy content \<or> \<not> truthy_opt (get_prop content ''parts'')
                             then Inl UnexpectedFormat
                             else
                               (case idx0 (the (get_prop content ''parts'')) of
                                  None \<Rightarrow> Inl ParseFailure
                                | Some p0 \<Rightarrow>
                                    if p0 = JNull then Inl ParseFailure
                                    else Inr (get_prop p0 ''text''))))))"

text \<open>
  What \<open>results.securityReview\<close> or \<open>results.qualityReview\<close> holds after its
  \<open>try\<close>/\<open>catch\<close>: the parsed verdict, or the object \<open>{error: message}\<close> written by the
  handler. The handler runs when the call is rejected and when the block raises.
\<close>

datatype failure = CallRejected rejection | RuntimeTypeError

datatype review = Verdict json | ReviewError failure

fun review_prop :: "review \<Rightarrow> string \<Rightarrow> json option" where
  "review_prop (Verdict v) k = get_prop v k"
| "review_prop (ReviewError e) k = None"

text \<open>
  One review block of \<open>main\<close>, for the tier named \<open>tier\<close> (\<open>overallRisk\<close> or
  \<open>overallQuality\<close>). It yields the review object and the tier copied into
  \<open>results.summary\<close>, if one was. A reply that is not a string makes
  \<open>parseGeminiResponse\<close> raise at \<open>response.match\<close>; a \<open>null\<close> verdict raises at the
  tier read. The console report that follows (the tier, then each issue) may raise as
  well, after the copy: whether it does enters as \<open>faults tier v\<close>, so that what is
  proved of a block holds whatever the report does; \<open>report_raises\<close> below is the
  report as the script has it.
\<close>

definition reviewStep ::
  "json_parse \<Rightarrow> (string \<Rightarrow> json \<Rightarrow> bool) \<Rightarrow> string \<Rightarrow> rejection + json option
   \<Rightarrow> review \<times> json option" where
  "reviewStep P faults tier outcome =
     (case outcome of
        Inl rej \<Rightarrow> (ReviewError (CallRejected rej), None)
      | Inr (Some (JString text)) \<Rightarrow>
          (let v = parseGeminiResponse P text in
           if v = JNull then (ReviewError RuntimeTypeError, None)
           else
             (let copied = (if truthy_opt (get_prop v tier) then get_prop v tier else None)
              in if faults tier v then (ReviewError RuntimeTypeError, copied)
                 else (Verdict v, copied)))
      | Inr other \<Rightarrow> (ReviewError RuntimeTypeError, None))"

text \<open>
  The console report itself, as the script has it. The tier, when truthy, is
  concatenated to its label. Then, when \<open>issues\<close> is truthy and
  \<open>issues.length > 0\<close>, one line is printed for each \<open>issue\<close> of
  \<open>for (const issue of issues)\<close>, from \<open>issue.severity\<close> (\<open>issue.priority\<close> in the
  quality block), \<open>issue.location\<close> and \<open>issue.description\<close>.

  Reading a member of \<open>null\<close> raises, and so does the conversion of a member that
  \<open>str_throws\<close>. An \<open>issues\<close> that is a string is iterated character by character and
  raises nothing; one that is an object is not iterable, so the loop raises as soon as
  the comparison \<open>issues.length > 0\<close> holds. That comparison converts the member
  \<open>length\<close> to a number: \<open>str_positive\<close> is \<open>Number(s) > 0\<close> for a string \<open>s\<close>,
  after the grammar of numeric strings (white space around one hexadecimal, octal or
  binary literal, or one optionally signed decimal literal or \<open>Infinity\<close>);
  an array converts through the string that joins its entries, which holds a comma as
  soon as there are two.
\<close>

definition opt_throws :: "json option \<Rightarrow> bool" where
  "opt_throws v = (case v of None \<Rightarrow> False | Some x \<Rightarrow> str_throws x)"

definition issue_raises :: "string \<Rightarrow> json \<Rightarrow> bool" where
  "issue_raises rank issue =
     (issue = JNull \<or> opt_throws (get_prop issue rank) \<or> opt_throws (get_prop issue ''location'')
      \<or> opt_throws (get_prop issue ''description''))"

definition radix_positive :: "string \<Rightarrow> string \<Rightarrow> bool" where
  "radix_positive digits ds =
     (ds \<noteq> [] \<and> list_all (\<lambda>d. d \<in> set digits) ds \<and> list_ex (\<lambda>d. d \<noteq> CHR ''0'') ds)"

definition decimal_positive :: "string \<Rightarrow> bool" where
  "decimal_positive u =
     (let ip = takeWhile is_digit u;
          r1 = dropWhile is_digit u;
          dot = (take 1 r1 = ''.'');
          fp = (if dot then takeWhile is_digit (drop 1 r1) else []);
          r2 = (if dot then dropWhile is_digit (drop 1 r1) else r1);
          ex = (take 1 r2 = ''e'' \<or> take 1 r2 = ''E'');
          r3 = (if ex then drop 1 r2 else r2);
          eneg = (ex \<and> take 1 r3 = ''-'');
          r4 = (if ex \<and> (take 1 r3 = ''-'' \<or> take 1 r3 = ''+'') then drop 1 r3 else r3);
          ep = (if ex then takeWhile is_digit r4 else []);
          r5 = (if ex then dropWhile is_digit r4 else r4);
          m = int (digits_val (ip @ fp));
          e = int (digits_val ep)
      in (ip \<noteq> [] \<or> fp \<noteq> []) \<and> (if ex then ep \<noteq> [] else True) \<and> r5 = []
         \<and> truthy (JNumber m ((if eneg then - e else e) - int (length fp))))"

definition str_positive :: "string \<Rightarrow> bool" where
  "str_positive s =
     (let t = trim s in
      if take 2 t = ''0x'' \<or> take 2 t = ''0X''
      then radix_positive ''0123456789abcdefABCDEF'' (drop 2 t)
      else if take 2 t = ''0o'' \<or> take 2 t = ''0O'' then radix_positive ''01234567'' (drop 2 t)
      else if take 2 t = ''0b'' \<or> take 2 t = ''0B'' then radix_positive ''01'' (drop 2 t)
      else (let u = (if take 1 t = ''+'' then drop 1 t else t)
            in u = ''Infinity'' \<or> decimal_positive u))"

text \<open>
  \<open>x > 0\<close> for an entry \<open>x\<close> of an array that is converted to a number (the entry goes
  through its string), and for the member \<open>length\<close> itself.
\<close>

fun entry_positive :: "json \<Rightarrow> bool" where
  "entry_positive (JNumber m e) = (0 < m \<and> truthy (JNumber m e))"
| "entry_positive (JString s) = str_positive s"
| "entry_positive (JArray [x]) = entry_positive x"
| "entry_positive v = False"

fun length_positive :: "json \<Rightarrow> bool" where
  "length_positive (JBool b) = b"
| "length_positive (JNumber m e) = (0 < m \<and> truthy (JNumber m e))"
| "length_positive (JString s) = str_positive s"
| "length_positive (JArray [x]) = entry_positive x"
| "length_positive v = False"

definition report_raises :: "string \<Rightarrow> json \<Rightarrow> bool" where
  "report_raises tier v =
     ((truthy_opt (get_prop v tier) \<and> str_throws (the (get_prop v tier)))
      \<or> (case get_prop v ''issues'' of
            Some (JArray xs) \<Rightarrow>
              list_ex (issue_raises (if tier = ''overallRisk'' then ''severity'' else ''priority'')) xs
          | Some (JObject kvs) \<Rightarrow>
              (case get_prop (JObject kvs) ''length'' of
                 None \<Rightarrow> False
               | Some l \<Rightarrow> str_throws l \<or> length_positive l)
          | _ \<Rightarrow> False))"

definition securityPass :: "review \<Rightarrow> bool" where
  "securityPass sr =
     (\<not> truthy_opt (review_prop sr ''overallRisk'')
      \<or> review_prop sr ''overallRisk'' \<in> set [Some (JString ''LOW''), Some (JString ''MEDIUM'')])"

definition qualityPass :: "review option \<Rightarrow> bool" where
  "qualityPass qr =
     (case qr of
        None \<Rightarrow> True
      | Some q \<Rightarrow>
          \<not> truthy_opt (review_prop q ''overallQuality'')
          \<or> review_prop q ''overallQuality''
              \<in> set [Some (JString ''EXCELLENT''), Some (JString ''GOOD''),
                      Some (JString ''ACCEPTABLE'')])"

text \<open>
  The document written to \<open>ai-review.json\<close> (its timestamp, model name and file list
  are left out).
\<close>

record review_results =
  securityReview :: review
  qualityReview :: "review option"
  sum_securityRisk :: json
  sum_codeQuality :: json
  passesReview :: bool

text \<open>
  \<open>main\<close> of the review script, from the code context and the outcomes of the two
  requests: the process exit code and the document written, if any. With fewer than 50
  characters of context it exits 0 and writes nothing. The quality request is made only
  without \<open>--security-focus\<close>. The document is written before the summary is
  printed; the summary concatenates the two tiers of \<open>results.summary\<close> to their
  labels, and a tier that cannot be converted to a string raises there, outside every
  \<open>try\<close>, so that \<open>main().catch\<close> ends the process with code 1.
\<close>

definition review_main ::
  "json_parse \<Rightarrow> (string \<Rightarrow> json \<Rightarrow> bool) \<Rightarrow> bool \<Rightarrow> string \<Rightarrow> http_outcome \<Rightarrow> http_outcome
   \<Rightarrow> nat \<times> review_results option" where
  "review_main P faults securityFocus codeContext sec qual =
     (if length (trim codeContext) < 50 then (0, None)
      else
        (let (sr, risk) = reviewStep P faults ''overallRisk'' (callGemini P sec);
             (qr, quality) =
               (if securityFocus then (None, None)
                else (let (q, t) = reviewStep P faults ''overallQuality'' (callGemini P qual)
                      in (Some q, t)));
             pass = (securityPass sr \<and> qualityPass qr);
             summaryRisk = (case risk of None \<Rightarrow> JString ''UNKNOWN'' | Some t \<Rightarrow> t);
             summaryQuality = (case quality of None \<Rightarrow> JString ''UNKNOWN'' | Some t \<Rightarrow> t)
         in (if str_throws summaryRisk \<or> str_throws summaryQuality then 1
             else if pass then 0 else 1,
             Some \<lparr> securityReview = sr, qualityReview = qr,
                    sum_securityRisk = summaryRisk, sum_codeQuality = summaryQuality,
                    passesReview = pass \<rparr>)))"

section \<open>The world the orchestrators run in\<close>

text \<open>
  \<open>execSync\<close> and \<open>execFileSync\<close> return the captured standard output (\<open>Inr\<close>) or
  throw an error object (\<open>Inl\<close>) that may carry \<open>stdout\<close>, \<open>stderr\<close> and a message.
\<close>

record exec_error =
  err_stdout :: "string option"
  err_stderr :: "string option"
  err_message :: string

type_synonym exec_outcome = "exec_error + string"

datatype disk_entry = NoEntry | Unreadable | Content string

text \<open>
  What \<open>ai-review.json\<close> holds once the review script has run: nothing, a text that
  cannot be read as a review document (with the message of the exception raised on it),
  or a review document.
\<close>

datatype ai_file = NoFile | BadFile string | ResultFile review_results

text \<open>
  JavaScript's \<open>||\<close> and \<open>&&\<close> on a property that is \<open>true\<close>, \<open>false\<close> or
  \<open>undefined\<close> (\<open>None\<close>): they return one of their operands.
\<close>

definition js_or :: "bool option \<Rightarrow> bool option \<Rightarrow> bool option" where
  "js_or a b = (if a = Some True then a else b)"

definition js_and :: "bool option \<Rightarrow> bool option \<Rightarrow> bool option" where
  "js_and a b = (if a = Some True then b else a)"

definition is_true :: "bool option \<Rightarrow> bool" where
  "is_true a = (a = Some True)"

section \<open>Verification Orchestrator (scripts/verify.js)\<close>

record cmd_result =
  cmd_success :: bool
  cmd_output :: string
  cmd_error :: "string option"

record gate_result =
  success :: "bool option"
  skipped :: "bool option"
  reason :: "string option"
  g_output :: "string option"
  g_error :: "string option"

record ai_result = gate_result +
  securityRisk :: "json option"
  codeQuality :: "json option"
  securityIssues :: "json option"
  qualityIssues :: "json option"
  needsAttention :: "bool option"

record summary =
  filesHashed :: nat
  testsPass :: "bool option"
  lintPass :: "bool option"
  auditPass :: "bool option"
  aiReviewPass :: "bool option"
  overallPass :: "bool option"

text \<open>
  The Verification Record. A property whose value is \<open>undefined\<close> is dropped by
  \<open>JSON.stringify\<close> and reads as \<open>undefined\<close> again after \<open>JSON.parse\<close>, so the
  record written and the record loaded are the same value.
\<close>

record verify_state =
  version :: string
  timestamp :: string
  files_count :: nat
  files_hashes :: "(string \<times> string) list"
  tests :: gate_result
  lint :: gate_result
  audit :: gate_result
  aiReview :: ai_result
  summary :: "summary option"

datatype stored = Absent | Unparsable | Stored verify_state

record world =
  sh :: "string \<Rightarrow> exec_outcome"
  execFile :: "string \<Rightarrow> string list \<Rightarrow> exec_outcome"
  file_at :: "string \<Rightarrow> disk_entry"
  sha256hex :: "string \<Rightarrow> string"
  package_json :: "string option"
  GEMINI_API_KEY :: "string option"
  aiReviewPath :: string
  ai_result_file :: ai_file
  found_files :: "string list"
  now :: string
  state_file :: "string \<Rightarrow> stored"
  stale :: bool

record verify_options =
  skipTests :: bool
  skipLint :: bool
  skipAiReview :: bool
  securityFocus :: bool
  outputPath :: string

definition OUTPUT_PATH :: string where
  "OUTPUT_PATH = ''.workflow/state/verify-state.json''"

definition verify_options_of :: "string list \<Rightarrow> verify_options" where
  "verify_options_of args =
     \<lparr> skipTests = (''--skip-tests'' \<in> set args),
       skipLint = (''--skip-lint'' \<in> set args),
       skipAiReview = (''--skip-ai-review'' \<in> set args),
       securityFocus = (''--security-focus'' \<in> set args),
       outputPath = OUTPUT_PATH \<rparr>"

definition existsSync :: "world \<Rightarrow> string \<Rightarrow> bool" where
  "existsSync w p = (file_at w p \<noteq> NoEntry)"

definition hashFile :: "world \<Rightarrow> string \<Rightarrow> string option" where
  "hashFile w filePath =
     (case file_at w filePath of Content c \<Rightarrow> Some (sha256hex w c) | _ \<Rightarrow> None)"

definition runCommand :: "world \<Rightarrow> string \<Rightarrow> cmd_result" where
  "runCommand w command =
     (case sh w command of
        Inr out \<Rightarrow> \<lparr> cmd_success = True, cmd_output = trim out, cmd_error = None \<rparr>
      | Inl e \<Rightarrow>
          \<lparr> cmd_success = False,
            cmd_output = (case err_stdout e of
                            None \<Rightarrow> []
                          | Some so \<Rightarrow> if so = [] then [] else trim so),
            cmd_error = Some (case err_stderr e of
                                None \<Rightarrow> err_message e
                              | Some se \<Rightarrow> if se = [] then err_message e else trim se) \<rparr>)"

definition skipped_because :: "string option \<Rightarrow> gate_result" where
  "skipped_because r =
     \<lparr> success = None, skipped = Some True, reason = r, g_output = None, g_error = None \<rparr>"

definition ran :: "cmd_result \<Rightarrow> gate_result" where
  "ran r = \<lparr> success = Some (cmd_success r), skipped = None, reason = None,
             g_output = Some (cmd_output r), g_error = cmd_error r \<rparr>"

text \<open>
  The check both \<open>runTests\<close> and \<open>runLint\<close> make on \<open>package.json\<close>: \<open>None\<close> when
  the script \<open>name\<close> is declared, else the reason for skipping. A file that cannot be
  read or parsed, and a \<open>null\<close> document, end in the \<open>catch\<close>.
\<close>

definition script_missing :: "json_parse \<Rightarrow> world \<Rightarrow> string \<Rightarrow> string option" where
  "script_missing P w name =
     (case package_json w of
        None \<Rightarrow> Some ''no package.json''
      | Some text \<Rightarrow>
          (case P text of
             None \<Rightarrow> Some ''no package.json''
           | Some pkg \<Rightarrow>
               if pkg = JNull then Some ''no package.json''
               else if \<not> truthy_opt (get_prop pkg ''scripts'')
                       \<or> \<not> truthy_opt (get_prop (the (get_prop pkg ''scripts'')) name)
               then Some (''no '' @ name @ '' script'')
               else None))"

definition runTests :: "json_parse \<Rightarrow> verify_options \<Rightarrow> world \<Rightarrow> gate_result" where
  "runTests P opts w =
     (if skipTests opts then skipped_because None
      else (case script_missing P w ''test'' of
              Some r \<Rightarrow> skipped_because (Some r)
            | None \<Rightarrow> ran (runCommand w ''npm test 2>&1'')))"

definition runLint :: "json_parse \<Rightarrow> verify_options \<Rightarrow> world \<Rightarrow> gate_result" where
  "runLint P opts w =
     (if skipLint opts then skipped_because None
      else (case script_missing P w ''lint'' of
              Some r \<Rightarrow> skipped_because (Some r)
            | None \<Rightarrow> ran (runCommand w ''npm run lint 2>&1'')))"

definition runAudit :: "world \<Rightarrow> gate_result" where
  "runAudit w =
     (let result = runCommand w ''npm audit --audit-level=high 2>&1'';
          out = cmd_output result;
          hasHighCritical = (js_includes out ''high'' \<or> js_includes out ''critical'')
      in \<lparr> success = Some (\<not> hasHighCritical \<or> cmd_success result), skipped = None,
           reason = None, g_output = Some (take 500 out), g_error = None \<rparr>)"

text \<open>\<open>review?.issues?.length || 0\<close> on a review object read back from the file.\<close>

definition issue_count :: "review option \<Rightarrow> json" where
  "issue_count r =
     (let len =
        (case r of
           None \<Rightarrow> None
         | Some rv \<Rightarrow>
             (case review_prop rv ''issues'' of
                None \<Rightarrow> None
              | Some JNull \<Rightarrow> None
              | Some (JArray xs) \<Rightarrow> Some (JNumber (int (length xs)) 0)
              | Some (JString t) \<Rightarrow> Some (JNumber (int (length t)) 0)
              | Some i \<Rightarrow> get_prop i ''length''))
      in if truthy_opt len then the len else JNumber 0 0)"

definition reviewed :: "review_results \<Rightarrow> bool \<Rightarrow> ai_result" where
  "reviewed r caught =
     \<lparr> success = Some (passesReview r), skipped = None, reason = None, g_output = None,
       g_error = None,
       securityRisk = Some (sum_securityRisk r), codeQuality = Some (sum_codeQuality r),
       securityIssues = Some (issue_count (Some (securityReview r))),
       qualityIssues = Some (issue_count (qualityReview r)),
       needsAttention = (if caught then Some (\<not> passesReview r) else None) \<rparr>"

definition ai_plain :: "gate_result \<Rightarrow> ai_result" where
  "ai_plain g = gate_result.extend g
     (ai_result.fields None None None None None)"

definition runAiReview :: "verify_options \<Rightarrow> world \<Rightarrow> ai_result" where
  "runAiReview opts w =
     (if skipAiReview opts then ai_plain (skipped_because None)
      else if GEMINI_API_KEY w = None \<or> GEMINI_API_KEY w = Some [] then
        ai_plain (skipped_because (Some ''no API key''))
      else if \<not> existsSync w (aiReviewPath w) then
        ai_plain (skipped_because (Some ''script not found''))
      else
        (case sh w (''node '' @ aiReviewPath w @ '' ''
                     @ (if securityFocus opts then ''--security-focus'' else [])) of
           Inr out \<Rightarrow>
             (case ai_result_file w of
                ResultFile r \<Rightarrow> reviewed r False
              | NoFile \<Rightarrow>
                  ai_plain \<lparr> success = Some True, skipped = None, reason = None,
                             g_output = Some out, g_error = None \<rparr>
              | BadFile msg \<Rightarrow>
                  ai_plain \<lparr> success = Some False, skipped = None, reason = None,
                             g_output = None, g_error = Some msg \<rparr>)
         | Inl e \<Rightarrow>
             (case ai_result_file w of
                ResultFile r \<Rightarrow> reviewed r True
              | _ \<Rightarrow>
                  ai_plain \<lparr> success = Some False, skipped = None, reason = None,
                             g_output = None, g_error = Some (err_message e) \<rparr>)))"

text \<open>\<open>obj[key] = value\<close> on an object kept as the list of its members.\<close>

fun obj_set :: "(string \<times> 'v) list \<Rightarrow> string \<Rightarrow> 'v \<Rightarrow> (string \<times> 'v) list" where
  "obj_set [] k v = [(k, v)]"
| "obj_set ((k', v') # kvs) k v = (if k' = k then (k, v) # kvs else (k', v') # obj_set kvs k v)"

text \<open>The loop of \<open>main\<close> over the discovered files.\<close>

fun hash_files :: "world \<Rightarrow> (string \<times> string) list \<Rightarrow> string list \<Rightarrow> (string \<times> string) list" where
  "hash_files w fileHashes [] = fileHashes"
| "hash_files w fileHashes (file # rest) =
     (case hashFile w file of
        None \<Rightarrow> hash_files w fileHashes rest
      | Some h \<Rightarrow> if h = [] then hash_files w fileHashes rest
                  else hash_files w (obj_set fileHashes file h) rest)"

definition summarise :: "nat \<Rightarrow> gate_result \<Rightarrow> gate_result \<Rightarrow> gate_result \<Rightarrow> ai_result \<Rightarrow> summary" where
  "summarise n testResults lintResults auditResults aiReviewResults =
     \<lparr> filesHashed = n,
       testsPass = js_or (success testResults) (skipped testResults),
       lintPass = js_or (success lintResults) (skipped lintResults),
       auditPass = success auditResults,
       aiReviewPass = js_or (success aiReviewResults) (skipped aiReviewResults),
       overallPass =
         js_and (js_and (js_and (js_or (success testResults) (skipped testResults))
                                (js_or (success lintResults) (skipped lintResults)))
                        (success auditResults))
                (js_or (success aiReviewResults) (skipped aiReviewResults)) \<rparr>"

text \<open>
  The summary that \<open>main\<close> prints after it has written the record concatenates
  \<open>aiReviewResults.securityRisk\<close> and \<open>aiReviewResults.codeQuality\<close>, when truthy,
  to their labels. A tier that cannot be converted to a string raises there, and
  \<open>main().catch\<close> ends the process with code 1.
\<close>

definition summary_print_throws :: "ai_result \<Rightarrow> bool" where
  "summary_print_throws aiReviewResults =
     ((truthy_opt (securityRisk aiReviewResults) \<and> str_throws (the (securityRisk aiReviewResults)))
      \<or> (truthy_opt (codeQuality aiReviewResults) \<and> str_throws (the (codeQuality aiReviewResults))))"

text \<open>
  \<open>main\<close>: the record written to the output path and the exit code (the write itself is
  taken to succeed).
\<close>

definition verify_main :: "json_parse \<Rightarrow> string list \<Rightarrow> world \<Rightarrow> verify_state \<times> nat" where
  "verify_main P args w =
     (let opts = verify_options_of args;
          fileHashes = hash_files w [] (found_files w);
          testResults = runTests P opts w;
          lintResults = runLint P opts w;
          auditResults = runAudit w;
          aiReviewResults = runAiReview opts w;
          verifyState =
            \<lparr> version = ''1.1.0'', timestamp = now w,
              files_count = length fileHashes, files_hashes = fileHashes,
              tests = testResults, lint = lintResults, audit = auditResults,
              aiReview = aiReviewResults,
              summary = Some (summarise (length fileHashes) testResults lintResults
                                auditResults aiReviewResults) \<rparr>
      in (verifyState,
          if summary_print_throws aiReviewResults then 1
          else if is_true (overallPass (the (summary verifyState))) then 0 else 1))"

section \<open>Ship Orchestrator (scripts/ship.js)\<close>

definition DEFAULT_STATE_PATH :: string where
  "DEFAULT_STATE_PATH = ''.workflow/state/verify-state.json''"

record ship_options =
  createPR :: bool
  dryRun :: bool
  statePath :: string

definition ship_options_of :: "string list \<Rightarrow> ship_options" where
  "ship_options_of args =
     \<lparr> createPR = (''--create-pr'' \<in> set args),
       dryRun = (''--dry-run'' \<in> set args),
       statePath = DEFAULT_STATE_PATH \<rparr>"

text \<open>
  What a run does that can be observed: one event for each console message, with its
  variable parts, one for each shell command run, and one for the call of
  \<open>gh pr create\<close>.
\<close>

datatype event =
    DryRunBanner
  | StateNotFound string
  | StateParseFailed
  | LoadedState string string
  | StaleWarning
  | GateStatus string bool
  | GatesFailed
  | IntegritySummary nat nat
  | ModifiedFile string string string
  | MissingFile string
  | ReadyToShip
  | NextSteps
  | DryRunCommand string
  | ShellCommand string
  | NoCurrentBranch
  | OnDefaultBranch string
  | GhNotFound
  | DryRunEcho "string list"
  | GhPrCreate "string list"
  | PrCreated "string option"
  | PrFailed string

record ship_cmd_result =
  s_success :: bool
  s_output :: "string option"
  s_error :: "string option"

definition ship_runCommand :: "world \<Rightarrow> string \<Rightarrow> bool \<Rightarrow> event list \<times> ship_cmd_result" where
  "ship_runCommand w command dry =
     (if dry then ([DryRunCommand command],
                   \<lparr> s_success = True, s_output = None, s_error = None \<rparr>)
      else
        ([ShellCommand command],
         (case sh w command of
            Inr out \<Rightarrow> \<lparr> s_success = True, s_output = Some (trim out), s_error = None \<rparr>
          | Inl e \<Rightarrow>
              \<lparr> s_success = False,
                s_output = Some (case err_stdout e of None \<Rightarrow> [] | Some so \<Rightarrow> trim so),
                s_error = Some (case err_stderr e of
                                  None \<Rightarrow> err_message e
                                | Some se \<Rightarrow> if trim se = [] then err_message e else trim se) \<rparr>)))"

definition loadVerifyState :: "ship_options \<Rightarrow> world \<Rightarrow> event list \<times> verify_state option" where
  "loadVerifyState options w =
     (case state_file w (statePath options) of
        Absent \<Rightarrow> ([StateNotFound (statePath options)], None)
      | Unparsable \<Rightarrow> ([StateParseFailed], None)
      | Stored state \<Rightarrow> ([], Some state))"

record integrity =
  verified :: nat
  modified :: "(string \<times> string \<times> string) list"
  missing :: "string list"
  total :: nat

text \<open>
  The loop of \<open>verifyFileIntegrity\<close> over \<open>Object.entries(state.files.hashes)\<close>. The
  \<open>actual\<close> text of a file that exists but cannot be hashed is \<open>undefined...\<close>: the
  concatenation binds tighter than \<open>||\<close>.
\<close>

fun check_files :: "world \<Rightarrow> integrity \<Rightarrow> (string \<times> string) list \<Rightarrow> integrity" where
  "check_files w results [] = results"
| "check_files w results ((filePath, expectedHash) # rest) =
     (if \<not> existsSync w filePath then
        check_files w (results \<lparr> missing := missing results @ [filePath] \<rparr>) rest
      else
        (let currentHash = hashFile w filePath in
         if currentHash = Some expectedHash then
           check_files w (results \<lparr> verified := verified results + 1 \<rparr>) rest
         else
           check_files w
             (results \<lparr> modified := modified results @
                [(filePath, take 8 expectedHash @ ''...'',
                  (case currentHash of None \<Rightarrow> ''undefined...'' | Some h \<Rightarrow> take 8 h @ ''...''))] \<rparr>)
             rest))"

definition verifyFileIntegrity :: "world \<Rightarrow> verify_state \<Rightarrow> integrity" where
  "verifyFileIntegrity w state =
     check_files w
       \<lparr> verified = 0, modified = [], missing = [], total = length (files_hashes state) \<rparr>
       (files_hashes state)"

text \<open>\<open>state.summary?.flag || false\<close>\<close>

definition flag :: "verify_state \<Rightarrow> (summary \<Rightarrow> bool option) \<Rightarrow> bool" where
  "flag state f = (case summary state of None \<Rightarrow> False | Some s \<Rightarrow> is_true (f s))"

definition checkGates :: "verify_state \<Rightarrow> (string \<times> bool) list" where
  "checkGates state =
     [(''verificationPassed'', flag state overallPass),
      (''testsPass'', flag state testsPass),
      (''lintPass'', flag state lintPass),
      (''auditPass'', flag state auditPass)]"

definition getCurrentBranch :: "world \<Rightarrow> event list \<times> string option" where
  "getCurrentBranch w =
     (let (ev, result) = ship_runCommand w ''git branch --show-current'' False
      in (ev, if s_success result then s_output result else None))"

definition getDefaultBranch :: "world \<Rightarrow> event list \<times> string" where
  "getDefaultBranch w =
     (let (ev, result) =
            ship_runCommand w
              ''git remote show origin 2>/dev/null | grep \"HEAD branch\" | cut -d: -f2'' False
      in if s_success result \<and> s_output result \<noteq> None \<and> s_output result \<noteq> Some []
         then (ev, trim (the (s_output result)))
         else
           (let (ev', mainExists) =
                  ship_runCommand w ''git show-ref --verify --quiet refs/heads/main'' False
            in (ev @ ev', if s_success mainExists then ''main'' else ''master'')))"

fun decimal :: "nat \<Rightarrow> string" where
  "decimal n = (if n < 10 then [char_of (48 + n)]
                else decimal (n div 10) @ [char_of (48 + n mod 10)])"

definition pass_fail :: "bool \<Rightarrow> string" where
  "pass_fail b = (if b then ''PASS'' else ''FAIL'')"

definition prBody :: "verify_state \<Rightarrow> integrity \<Rightarrow> string" where
  "prBody state integrityResults =
     ''## Verification Summary'' @ [NL, NL]
     @ ''- **Timestamp:** '' @ timestamp state @ [NL]
     @ ''- **Files Verified:** '' @ decimal (verified integrityResults) @ ''/''
       @ decimal (total integrityResults) @ [NL]
     @ ''- **Tests:** '' @ pass_fail (flag state testsPass) @ [NL]
     @ ''- **Lint:** '' @ pass_fail (flag state lintPass) @ [NL]
     @ ''- **Security Audit:** '' @ pass_fail (flag state auditPass) @ [NL, NL]
     @ ''## File Integrity'' @ [NL, NL]
     @ ''All '' @ decimal (verified integrityResults) @ '' files match their verified hashes.''
     @ [NL, NL]
     @ ''## Checklist'' @ [NL, NL]
     @ ''- [x] Verification script passed'' @ [NL]
     @ ''- [x] File integrity confirmed'' @ [NL]
     @ ''- [ ] Human review completed'' @ [NL]"

definition createPullRequest ::
  "ship_options \<Rightarrow> world \<Rightarrow> verify_state \<Rightarrow> integrity \<Rightarrow> event list \<times> bool" where
  "createPullRequest options w state integrityResults =
     (let (ev1, branch) = getCurrentBranch w;
          (ev2, defaultBranch) = getDefaultBranch w
      in if branch = None \<or> branch = Some [] then (ev1 @ ev2 @ [NoCurrentBranch], False)
         else if the branch = defaultBranch then
           (ev1 @ ev2 @ [OnDefaultBranch defaultBranch], False)
         else
           (let (ev3, ghCheck) = ship_runCommand w ''which gh'' False
            in if \<not> s_success ghCheck then (ev1 @ ev2 @ ev3 @ [GhNotFound], False)
               else
                 (let prTitle = ''[Verified] '' @ the branch;
                      ghArgs = [''pr'', ''create'', ''--title'', prTitle, ''--body'',
                                prBody state integrityResults, ''--base'', defaultBranch]
                  in if dryRun options then (ev1 @ ev2 @ ev3 @ [DryRunEcho ghArgs], True)
                     else
                       (case execFile w ''gh'' ghArgs of
                          Inr out \<Rightarrow>
                            (ev1 @ ev2 @ ev3
                               @ [GhPrCreate ghArgs,
                                  PrCreated (if trim out = [] then None else Some (trim out))],
                             True)
                        | Inl e \<Rightarrow>
                            (ev1 @ ev2 @ ev3
                               @ [GhPrCreate ghArgs,
                                  PrFailed (case err_stderr e of
                                              None \<Rightarrow> err_message e
                                            | Some se \<Rightarrow>
                                                if trim se = [] then err_message e else trim se)],
                             False)))))"

text \<open>
  \<open>main\<close>: the events in order and the exit code. Every \<open>process.exit\<close> ends the run
  where it stands.
\<close>

definition ship_main :: "string list \<Rightarrow> world \<Rightarrow> event list \<times> nat" where
  "ship_main args w =
     (let options = ship_options_of args;
          ev0 = (if dryRun options then [DryRunBanner] else [])
      in case loadVerifyState options w of
           (ev1, None) \<Rightarrow> (ev0 @ ev1, 1)
         | (ev1, Some state) \<Rightarrow>
             (let gates = checkGates state;
                  ev2 = ev0 @ ev1 @ [LoadedState (statePath options) (timestamp state)]
                        @ (if stale w then [StaleWarning] else [])
                        @ map (\<lambda>(gate, passed). GateStatus gate passed) gates
              in if \<not> list_all snd gates then (ev2 @ [GatesFailed], 1)
                 else
                   (let integrityResults = verifyFileIntegrity w state;
                        ev3 = ev2 @ [IntegritySummary (verified integrityResults)
                                       (total integrityResults)]
                    in if modified integrityResults \<noteq> [] then
                         (ev3 @ map (\<lambda>(file, expected, actual). ModifiedFile file expected actual)
                                  (modified integrityResults), 1)
                       else if missing integrityResults \<noteq> [] then
                         (ev3 @ map MissingFile (missing integrityResults), 1)
                       else if createPR options then
                         (let (ev4, prSuccess) =
                                createPullRequest options w state integrityResults
                          in (ev3 @ [ReadyToShip] @ ev4,
                              if \<not> prSuccess \<and> \<not> dryRun options then 1 else 0))
                       else (ev3 @ [ReadyToShip, NextSteps], 0))))"

text \<open>
  The release action and its dry-run echo; and, more widely, the events that only
  \<open>createPullRequest\<close> produces (it starts with a shell command).
\<close>

fun release_event :: "event \<Rightarrow> bool" where
  "release_event (DryRunEcho a) = True"
| "release_event (GhPrCreate a) = True"
| "release_event e = False"

fun pr_event :: "event \<Rightarrow> bool" where
  "pr_event (DryRunCommand c) = True"
| "pr_event (ShellCommand c) = True"
| "pr_event NoCurrentBranch = True"
| "pr_event (OnDefaultBranch b) = True"
| "pr_event GhNotFound = True"
| "pr_event (DryRunEcho a) = True"
| "pr_event (GhPrCreate a) = True"
| "pr_event (PrCreated u) = True"
| "pr_event (PrFailed m) = True"
| "pr_event e = False"

section \<open>A sample world\<close>

text \<open>
  The world of the concrete runs below: every shell command succeeds with no output,
  there is no \<open>package.json\<close>, the review script and an API key are present, and no
  file has been discovered. The digest is a stand-in, the content itself (the theorems
  hold for any digest).
\<close>

definition sample_world :: world where
  "sample_world =
     \<lparr> sh = (\<lambda>command. Inr []),
       execFile = (\<lambda>file args. Inr []),
       file_at = (\<lambda>p. if p = ''scripts/ai-review.js'' then Content ''#!/usr/bin/env node''
                       else NoEntry),
       sha256hex = (\<lambda>content. content),
       package_json = None,
       GEMINI_API_KEY = Some ''key'',
       aiReviewPath = ''scripts/ai-review.js'',
       ai_result_file = NoFile,
       found_files = [],
       now = ''2026-01-01T00:00:00.000Z'',
       state_file = (\<lambda>p. Absent),
       stale = False \<rparr>"

text \<open>
  A reply body of the remote service that carries \<open>text\<close> as its first part (\<open>text\<close>
  without control characters).
\<close>

definition json_quote :: "string \<Rightarrow> string" where
  "json_quote text =
     CHR 0x22 # concat (map (\<lambda>c. if c = CHR 0x22 \<or> c = CHR 0x5C then [CHR 0x5C, c] else [c]) text)
     @ [CHR 0x22]"

definition gemini_reply :: "string \<Rightarrow> http_outcome" where
  "gemini_reply text =
     Body (''{\"candidates\": [{\"content\": {\"parts\": [{\"text\": '' @ json_quote text @ ''}]}}]}'')"

text \<open>A command that exits with a nonzero status, having printed \<open>out\<close>.\<close>

definition exit_nonzero :: "string \<Rightarrow> exec_outcome" where
  "exit_nonzero out =
     Inl \<lparr> err_stdout = Some out, err_stderr = Some [], err_message = ''Command failed'' \<rparr>"

text \<open>
  The world once the review script, started by \<open>runAiReview\<close>, has ended with
  \<open>outcome\<close> (its exit code and the document it wrote, if any); its console output is
  left empty.
\<close>

definition after_review :: "bool \<Rightarrow> nat \<times> review_results option \<Rightarrow> world \<Rightarrow> world" where
  "after_review focus outcome w =
     w \<lparr> sh := (\<lambda>command.
                  if command = ''node '' @ aiReviewPath w @ '' ''
                                 @ (if focus then ''--security-focus'' else [])
                  then (if fst outcome = 0 then Inr [] else exit_nonzero [])
                  else sh w command),
         ai_result_file := (case snd outcome of
                              None \<Rightarrow> ai_result_file w
                            | Some doc \<Rightarrow> ResultFile doc) \<rparr>"

text \<open>
  A project with two source files and a test script, and the same project after the
  first file has been edited and the second deleted.
\<close>

definition project_world :: world where
  "project_world =
     sample_world
       \<lparr> file_at := (\<lambda>p. if p = ''src/a.js'' then Content ''export const a = 1''
                         else if p = ''src/b.js'' then Content ''export const b = 2''
                         else file_at sample_world p),
         package_json := Some ''{\"scripts\": {\"test\": \"node test.js\"}}'',
         found_files := [''src/a.js'', ''src/b.js''] \<rparr>"

definition tampered :: "world \<Rightarrow> world" where
  "tampered w =
     w \<lparr> file_at := (\<lambda>p. if p = ''src/a.js'' then Content ''console.log(666)''
                        else if p = ''src/b.js'' then NoEntry
                        else file_at w p) \<rparr>"

text \<open>The world in which \<open>state\<close> is what the default state path holds.\<close>

definition holding :: "verify_state \<Rightarrow> world \<Rightarrow> world" where
  "holding state w =
     w \<lparr> state_file := (\<lambda>p. if p = DEFAULT_STATE_PATH then Stored state else Absent) \<rparr>"

text \<open>
  The record of a verification run of the project that passes, and of one whose tests
  fail.
\<close>

definition passing_record :: verify_state where
  "passing_record = fst (verify_main JSON_parse [''--skip-ai-review''] project_world)"

definition failing_record :: verify_state where
  "failing_record =
     fst (verify_main JSON_parse [''--skip-ai-review'']
            (project_world \<lparr> sh := (\<lambda>command. if command = ''npm test 2>&1''
                                                then exit_nonzero ''1 failing'' else Inr []) \<rparr>))"

section \<open>Properties of the Review Response Parser\<close>

lemma parse_fallback_fields:
  "get_prop (rawFallback r) ''summary'' = Some (JString r)"
  "get_prop (rawFallback r) ''issues'' = Some (JArray [])"
  "get_prop (rawFallback r) ''raw'' = Some (JBool True)"
  by (simp_all add: rawFallback_def)

text \<open>
  C7. \<open>parseGeminiResponse\<close> returns a value on every string: each \<open>JSON.parse\<close> sits in
  its own \<open>try\<close>, modelled by the \<open>None\<close> branches, and no other operation on a string
  can throw. When the three strategies all fail, the value returned is the degraded
  verdict: its \<open>summary\<close> is the input text, its \<open>issues\<close> the empty list, and \<open>raw\<close> is
  true.
\<close>

theorem parseGeminiResponse_degraded:
  assumes "strategy1 P response = None"
    and "strategy2 P response = None"
    and "strategy3 P response = None"
  shows "parseGeminiResponse P response = rawFallback response
       \<and> get_prop (parseGeminiResponse P response) ''summary'' = Some (JString response)
       \<and> get_prop (parseGeminiResponse P response) ''issues'' = Some (JArray [])
       \<and> get_prop (parseGeminiResponse P response) ''raw'' = Some (JBool True)"
proof -
  from assms have "parseGeminiResponse P response = rawFallback response"
    by (simp add: parseGeminiResponse_def)
  then show ?thesis
    by (simp add: parse_fallback_fields)
qed

theorem parseGeminiResponse_degraded_witness:
  "strategy1 JSON_parse ''Looks fine.'' = None
   \<and> strategy2 JSON_parse ''Looks fine.'' = None
   \<and> strategy3 JSON_parse ''Looks fine.'' = None
   \<and> parseGeminiResponse JSON_parse ''Looks fine.'' = rawFallback ''Looks fine.''
   \<and> get_prop (parseGeminiResponse JSON_parse ''Looks fine.'') ''summary''
       = Some (JString ''Looks fine.'')
   \<and> get_prop (parseGeminiResponse JSON_parse ''Looks fine.'') ''issues'' = Some (JArray [])
   \<and> get_prop (parseGeminiResponse JSON_parse ''Looks fine.'') ''raw'' = Some (JBool True)"
proof -
  have s1: "strategy1 JSON_parse ''Looks fine.'' = None"
    by code_simp
  have s2: "strategy2 JSON_parse ''Looks fine.'' = None"
    by code_simp
  have s3: "strategy3 JSON_parse ''Looks fine.'' = None"
    by code_simp
  show ?thesis
    using s1 s2 s3 parseGeminiResponse_degraded [OF s1 s2 s3] by blast
qed


section \<open>Properties of the verification run\<close>

lemma is_true_js_or: "is_true (js_or a b) \<longleftrightarrow> is_true a \<or> is_true b"
  by (auto simp: is_true_def js_or_def)

lemma is_true_js_and: "is_true (js_and a b) \<longleftrightarrow> is_true a \<and> is_true b"
  by (auto simp: is_true_def js_and_def)

lemma overallPass_summarise:
  "is_true (overallPass (summarise n t l a r)) \<longleftrightarrow>
     (is_true (success t) \<or> is_true (skipped t))
     \<and> (is_true (success l) \<or> is_true (skipped l))
     \<and> is_true (success a)
     \<and> (is_true (success r) \<or> is_true (skipped r))"
  by (simp add: summarise_def is_true_js_or is_true_js_and)

lemma summary_verify_main:
  "summary (fst (verify_main P args w)) =
     Some (summarise (length (hash_files w [] (found_files w)))
             (runTests P (verify_options_of args) w) (runLint P (verify_options_of args) w)
             (runAudit w) (runAiReview (verify_options_of args) w))"
  by (simp add: verify_main_def Let_def)

lemma exit_verify_main:
  "snd (verify_main P args w) = 0 \<longleftrightarrow>
     is_true (overallPass (the (summary (fst (verify_main P args w)))))
     \<and> \<not> summary_print_throws (aiReview (fst (verify_main P args w)))"
  by (simp add: verify_main_def Let_def)

lemma exit_verify_main_failed:
  "\<not> is_true (overallPass (the (summary (fst (verify_main P args w)))))
   \<Longrightarrow> snd (verify_main P args w) = 1"
  by (simp add: verify_main_def Let_def)

lemma reviewStep_rejected:
  "reviewStep P faults tier (Inl rej) = (ReviewError (CallRejected rej), None)"
  by (simp add: reviewStep_def)

lemma runAiReview_document:
  assumes "\<not> skipAiReview opts"
    and "GEMINI_API_KEY w \<noteq> None" and "GEMINI_API_KEY w \<noteq> Some []"
    and "existsSync w (aiReviewPath w)"
    and "ai_result_file w = ResultFile doc"
  shows "success (runAiReview opts w) = Some (passesReview doc)"
    and "skipped (runAiReview opts w) = None"
  using assms by (auto simp: runAiReview_def reviewed_def split: sum.splits)

lemma success_ai_plain: "success (ai_plain g) = success g" "skipped (ai_plain g) = skipped g"
  by (simp_all add: ai_plain_def gate_result.defs ai_result.defs)

text \<open>
  C1. The claim asks that a review whose request fails count as a failed gate. The code
  does the opposite: when both requests are rejected (or the security one, under
  \<open>--security-focus\<close>), the handler stores \<open>{error: message}\<close>, which has no tier, so
  \<open>securityPass\<close> and \<open>qualityPass\<close> are true, the script writes \<open>passesReview = true\<close>
  and exits 0, and the verification run records \<open>aiReviewPass = true\<close>.
\<close>

theorem rejected_review_passes:
  assumes "50 \<le> length (trim codeContext)"
    and "callGemini P sec = Inl r1"
    and "focus \<or> callGemini P qual = Inl r2"
  shows "\<exists>doc. review_main P faults focus codeContext sec qual = (0, Some doc)
           \<and> securityReview doc = ReviewError (CallRejected r1)
           \<and> passesReview doc
           \<and> (\<forall>opts w n t l a.
                 \<not> skipAiReview opts \<and> GEMINI_API_KEY w \<noteq> None \<and> GEMINI_API_KEY w \<noteq> Some []
                 \<and> existsSync w (aiReviewPath w) \<and> ai_result_file w = ResultFile doc
                 \<longrightarrow> success (runAiReview opts w) = Some True
                     \<and> skipped (runAiReview opts w) = None
                     \<and> aiReviewPass (summarise n t l a (runAiReview opts w)) = Some True)"
proof -
  have sp: "securityPass (ReviewError (CallRejected r1))"
    by (simp add: securityPass_def truthy_opt_def)
  have qp: "qualityPass (if focus then None else Some (ReviewError (CallRejected r2)))"
    by (simp add: qualityPass_def truthy_opt_def)
  let ?doc = "\<lparr> securityReview = ReviewError (CallRejected r1),
                 qualityReview = (if focus then None else Some (ReviewError (CallRejected r2))),
                 sum_securityRisk = JString ''UNKNOWN'', sum_codeQuality = JString ''UNKNOWN'',
                 passesReview = True \<rparr>"
  have run: "review_main P faults focus codeContext sec qual = (0, Some ?doc)"
    using assms sp qp by (auto simp: review_main_def reviewStep_rejected Let_def)
  have "success (runAiReview opts w) = Some True
        \<and> skipped (runAiReview opts w) = None
        \<and> aiReviewPass (summarise n t l a (runAiReview opts w)) = Some True"
    if "\<not> skipAiReview opts" "GEMINI_API_KEY w \<noteq> None" "GEMINI_API_KEY w \<noteq> Some []"
      "existsSync w (aiReviewPath w)" "ai_result_file w = ResultFile ?doc"
    for opts w n t l a
    using runAiReview_document [OF that] by (simp add: summarise_def js_or_def)
  with run show ?thesis
    by (intro exI [of _ ?doc]) simp
qed


theorem rejected_review_passes_witness:
  "50 \<le> length (trim (replicate 50 (CHR ''x'')))
   \<and> callGemini JSON_parse NoReplyIn30s = Inl Timeout
   \<and> review_main JSON_parse (\<lambda>tier v. False) False (replicate 50 (CHR ''x''))
        NoReplyIn30s NoReplyIn30s
       = (0, Some \<lparr> securityReview = ReviewError (CallRejected Timeout),
                     qualityReview = Some (ReviewError (CallRejected Timeout)),
                     sum_securityRisk = JString ''UNKNOWN'',
                     sum_codeQuality = JString ''UNKNOWN'',
                     passesReview = True \<rparr>)
   \<and> aiReviewPass (the (summary (fst (verify_main JSON_parse []
        (after_review False
           (review_main JSON_parse (\<lambda>tier v. False) False (replicate 50 (CHR ''x''))
              NoReplyIn30s NoReplyIn30s)
           sample_world))))) = Some True
   \<and> overallPass (the (summary (fst (verify_main JSON_parse []
        (after_review False
           (review_main JSON_parse (\<lambda>tier v. False) False (replicate 50 (CHR ''x''))
              NoReplyIn30s NoReplyIn30s)
           sample_world))))) = Some True
   \<and> snd (verify_main JSON_parse []
        (after_review False
           (review_main JSON_parse (\<lambda>tier v. False) False (replicate 50 (CHR ''x''))
              NoReplyIn30s NoReplyIn30s)
           sample_world)) = 0"
proof -
  let ?doc = "\<lparr> securityReview = ReviewError (CallRejected Timeout),
                 qualityReview = Some (ReviewError (CallRejected Timeout)),
                 sum_securityRisk = JString ''UNKNOWN'',
                 sum_codeQuality = JString ''UNKNOWN'',
                 passesReview = True \<rparr>"
  let ?run = "review_main JSON_parse (\<lambda>tier v. False) False (replicate 50 (CHR ''x''))
                NoReplyIn30s NoReplyIn30s"
  let ?w = "after_review False ?run sample_world"
  have h1: "50 \<le> length (trim (replicate 50 (CHR ''x'')))"
    by code_simp
  have h2: "callGemini JSON_parse NoReplyIn30s = Inl Timeout"
    by (simp add: callGemini_def)
  have h3: "False \<or> callGemini JSON_parse NoReplyIn30s = Inl Timeout"
    using h2 by simp
  from rejected_review_passes [OF h1 h2 h3, of "\<lambda>tier v. False"]
  obtain doc where run: "?run = (0, Some doc)"
    and gate: "\<And>opts w n t l a.
        \<not> skipAiReview opts \<and> GEMINI_API_KEY w \<noteq> None \<and> GEMINI_API_KEY w \<noteq> Some []
        \<and> existsSync w (aiReviewPath w) \<and> ai_result_file w = ResultFile doc
        \<Longrightarrow> aiReviewPass (summarise n t l a (runAiReview opts w)) = Some True"
    by blast
  have explicit: "?run = (0, Some ?doc)"
    by code_simp
  have "\<not> skipAiReview (verify_options_of []) \<and> GEMINI_API_KEY ?w \<noteq> None
        \<and> GEMINI_API_KEY ?w \<noteq> Some [] \<and> existsSync ?w (aiReviewPath ?w)
        \<and> ai_result_file ?w = ResultFile doc"
    unfolding run
    by (simp add: verify_options_of_def sample_world_def existsSync_def after_review_def)
  from gate [OF this] have
    "aiReviewPass (the (summary (fst (verify_main JSON_parse [] ?w)))) = Some True"
    by (simp add: summary_verify_main)
  moreover have "overallPass (the (summary (fst (verify_main JSON_parse [] ?w)))) = Some True"
    by code_simp
  moreover have "snd (verify_main JSON_parse [] ?w) = 0"
    by code_simp
  ultimately show ?thesis
    using h1 h2 explicit by blast
qed



text \<open>
  C9. \<open>runCommand\<close> turns every outcome of \<open>execSync\<close> into a result value: the thrown
  error is caught, so nothing propagates. On success the result is
  \<open>{success: true, output}\<close> with the trimmed output; otherwise \<open>success\<close> is false,
  \<open>output\<close> is the trimmed captured stdout (empty when there is none) and \<open>error\<close> is
  the trimmed stderr, or the error message when stderr is missing or empty.
\<close>

theorem runCommand_never_throws:
  "(\<forall>out. sh w command = Inr out \<longrightarrow>
       runCommand w command = \<lparr> cmd_success = True, cmd_output = trim out, cmd_error = None \<rparr>)
   \<and> (\<forall>e. sh w command = Inl e \<longrightarrow>
         \<not> cmd_success (runCommand w command)
         \<and> cmd_output (runCommand w command)
             = (case err_stdout e of None \<Rightarrow> [] | Some so \<Rightarrow> trim so)
         \<and> (\<exists>text. cmd_error (runCommand w command) = Some text
               \<and> text = (case err_stderr e of
                           None \<Rightarrow> err_message e
                         | Some se \<Rightarrow> if se = [] then err_message e else trim se)))
   \<and> (cmd_success (runCommand w command) \<longleftrightarrow> (\<exists>out. sh w command = Inr out))"
proof -
  have "trim [] = []"
    by (simp add: trim_def)
  then show ?thesis
    by (cases "sh w command") (auto simp: runCommand_def split: option.splits)
qed

theorem runCommand_never_throws_witness:
  "runCommand (sample_world \<lparr> sh := (\<lambda>c. Inr ''  ok  '') \<rparr>) ''npm test 2>&1''
     = \<lparr> cmd_success = True, cmd_output = ''ok'', cmd_error = None \<rparr>
   \<and> runCommand (sample_world \<lparr> sh := (\<lambda>c. Inl \<lparr> err_stdout = Some '' 1 failing '',
                                                err_stderr = None,
                                                err_message = ''Command failed: npm test'' \<rparr>) \<rparr>)
        ''npm test 2>&1''
     = \<lparr> cmd_success = False, cmd_output = ''1 failing'',
         cmd_error = Some ''Command failed: npm test'' \<rparr>"
proof -
  let ?w1 = "sample_world \<lparr> sh := (\<lambda>c. Inr ''  ok  '') \<rparr>"
  let ?e = "\<lparr> err_stdout = Some '' 1 failing '', err_stderr = None,
              err_message = ''Command failed: npm test'' \<rparr>"
  let ?w2 = "sample_world \<lparr> sh := (\<lambda>c. Inl ?e) \<rparr>"
  have t1: "trim ''  ok  '' = ''ok''" and t2: "trim '' 1 failing '' = ''1 failing''"
    by code_simp+
  have "sh ?w1 ''npm test 2>&1'' = Inr ''  ok  ''"
    by simp
  with runCommand_never_throws [of ?w1 "''npm test 2>&1''"]
  have a: "runCommand ?w1 ''npm test 2>&1''
           = \<lparr> cmd_success = True, cmd_output = trim ''  ok  '', cmd_error = None \<rparr>"
    by blast
  have "sh ?w2 ''npm test 2>&1'' = Inl ?e"
    by simp
  with runCommand_never_throws [of ?w2 "''npm test 2>&1''"]
  have "\<not> cmd_success (runCommand ?w2 ''npm test 2>&1'')
        \<and> cmd_output (runCommand ?w2 ''npm test 2>&1'') = trim '' 1 failing ''
        \<and> cmd_error (runCommand ?w2 ''npm test 2>&1'') = Some ''Command failed: npm test''"
    by auto
  then have b: "runCommand ?w2 ''npm test 2>&1''
           = \<lparr> cmd_success = False, cmd_output = trim '' 1 failing '',
               cmd_error = Some ''Command failed: npm test'' \<rparr>"
    by (cases "runCommand ?w2 ''npm test 2>&1''") simp
  from a b show ?thesis
    unfolding t1 t2 by simp
qed


section \<open>Properties of the three strategies\<close>

lemma star_greedy_set:
  "x \<in> set (star_greedy p s) \<Longrightarrow> \<exists>w. s = w @ x \<and> (\<forall>c\<in>set w. p c)"
proof (induction s)
  case Nil
  then show ?case by simp
next
  case (Cons c cs)
  show ?case
  proof (cases "x = c # cs")
    case True
    then show ?thesis by simp
  next
    case False
    with Cons.prems have pc: "p c" and "x \<in> set (star_greedy p cs)"
      by (auto split: if_splits)
    with Cons.IH obtain w where "cs = w @ x" "\<forall>c\<in>set w. p c"
      by blast
    with pc have "c # cs = (c # w) @ x \<and> (\<forall>a\<in>set (c # w). p a)"
      by simp
    then show ?thesis by blast
  qed
qed

lemma lit_set: "x \<in> set (lit p s) \<longleftrightarrow> s = p @ x"
proof
  assume "x \<in> set (lit p s)"
  then have "take (length p) s = p" and "x = drop (length p) s"
    by (auto simp: lit_def split: if_splits)
  then show "s = p @ x"
    using append_take_drop_id [of "length p" s] by simp
next
  assume "s = p @ x"
  then show "x \<in> set (lit p s)"
    by (simp add: lit_def)
qed

lemma seq_set: "x \<in> set (seq m1 m2 s) \<longleftrightarrow> (\<exists>y\<in>set (m1 s). x \<in> set (m2 y))"
  by (auto simp: seq_def)

lemma fence_close_shape:
  assumes "fence_close r \<noteq> []"
  shows "\<exists>w rest. r = w @ NL # ''```'' @ rest \<and> (\<forall>c\<in>set w. js_space c)"
proof -
  from assms obtain z where "z \<in> set (fence_close r)"
    by (cases "fence_close r") auto
  then have "\<exists>x\<in>set (star_greedy js_space r). \<exists>y\<in>set (lit [NL] x). z \<in> set (lit ''```'' y)"
    by (simp add: fence_close_def seq_set)
  then obtain x y where x: "x \<in> set (star_greedy js_space r)"
    and y: "y \<in> set (lit [NL] x)" and z: "z \<in> set (lit ''```'' y)"
    by blast
  from y z have "x = NL # ''```'' @ z"
    by (simp add: lit_set)
  with star_greedy_set [OF x] show ?thesis
    by blast
qed

lemma fence_close_tail: "fence_close (NL # ''```'' @ post) \<noteq> []"
  by (simp add: fence_close_def seq_def lit_def js_space_def NL_def)

lemma fence_open_plain: "fence_open (''```'' @ NL # CHR ''{'' # t) = [CHR ''{'' # t]"
  by (simp add: fence_open_def seq_def lit_def opt_def js_space_def NL_def)

lemma fence_open_json: "fence_open (''```json'' @ NL # CHR ''{'' # t) = [CHR ''{'' # t]"
  by (simp add: fence_open_def seq_def lit_def opt_def js_space_def NL_def)


lemma js_includes_here: "js_includes (sub @ ys) sub"
proof (cases "sub @ ys")
  case Nil
  then show ?thesis by simp
next
  case (Cons a l)
  have "take (length sub) (sub @ ys) = sub" by simp
  then have "js_includes (a # l) sub" by (simp add: Cons)
  then show ?thesis by (simp only: Cons)
qed

lemma lit_brace: "lit ''}'' (c # r) = (if c = CHR ''}'' then [r] else [])"
  by (simp add: lit_def)

lemma lit_fence_other: "c \<noteq> CHR 0x60 \<Longrightarrow> lit ''```'' (c # r) = []"
  by (simp add: lit_def)

lemma js_includes_mid: "js_includes (xs @ sub @ ys) sub"
proof (induction xs)
  case Nil
  show ?case using js_includes_here by simp
next
  case (Cons x xs)
  then show ?case by simp
qed

lemma fence_group_brace:
  "fence_group (CHR ''{'' # t) = concat (map (lit ''}'') (star_lazy (\<lambda>c. True) t))"
  by (simp add: fence_group_def seq_def lit_def)

lemma first_close:
  assumes "\<And>a1 a2. a = a1 @ CHR ''}'' # a2 \<Longrightarrow> f (a2 @ CHR ''}'' # tail) = []"
  shows "\<exists>ys. concat (map f (concat (map (lit ''}'') (star_lazy (\<lambda>c. True) (a @ CHR ''}'' # tail)))))
            = f tail @ ys"
  using assms
proof (induction a)
  case Nil
  show ?case by (simp add: lit_brace)
next
  case (Cons c a)
  have "\<And>a1 a2. a = a1 @ CHR ''}'' # a2 \<Longrightarrow> f (a2 @ CHR ''}'' # tail) = []"
  proof -
    fix a1 a2
    assume "a = a1 @ CHR ''}'' # a2"
    then have "c # a = (c # a1) @ CHR ''}'' # a2" by simp
    then show "f (a2 @ CHR ''}'' # tail) = []" by (rule Cons.prems)
  qed
  with Cons.IH obtain ys where
    ys: "concat (map f (concat (map (lit ''}'') (star_lazy (\<lambda>c. True) (a @ CHR ''}'' # tail))))) = f tail @ ys"
    by blast
  show ?case
  proof (cases "c = CHR ''}''")
    case True
    then have "c # a = [] @ CHR ''}'' # a" by simp
    then have "f (a @ CHR ''}'' # tail) = []" by (rule Cons.prems)
    with True ys show ?thesis by (simp add: lit_brace)
  next
    case False
    with ys show ?thesis by (simp add: lit_brace)
  qed
qed

lemma inner_close_fails:
  assumes nofence: "\<not> js_includes (CHR ''{'' # t @ ''}'') (NL # ''```'')"
    and split: "t = a1 @ CHR ''}'' # a2"
  shows "fence_close (a2 @ CHR ''}'' # tail) = []"
proof (rule ccontr)
  assume "fence_close (a2 @ CHR ''}'' # tail) \<noteq> []"
  then obtain w rest where eq: "a2 @ CHR ''}'' # tail = w @ NL # ''```'' @ rest"
    and sp: "\<forall>c\<in>set w. js_space c"
    using fence_close_shape by blast
  from eq have "(a2 @ ''}'') @ tail = (w @ NL # ''```'') @ rest"
    by simp
  then obtain us where
    "(a2 @ ''}'' = (w @ NL # ''```'') @ us \<and> us @ tail = rest)
     \<or> ((a2 @ ''}'') @ us = w @ NL # ''```'' \<and> tail = us @ rest)"
    unfolding append_eq_append_conv2 by blast
  then show False
  proof
    assume "a2 @ ''}'' = (w @ NL # ''```'') @ us \<and> us @ tail = rest"
    then have "CHR ''{'' # t @ ''}'' = (CHR ''{'' # a1 @ CHR ''}'' # w) @ (NL # ''```'') @ us"
      using split by simp
    then have "js_includes (CHR ''{'' # t @ ''}'') (NL # ''```'')"
      using js_includes_mid [of "CHR ''{'' # a1 @ CHR ''}'' # w" "NL # ''```''" us] by simp
    with nofence show False by simp
  next
    assume "(a2 @ ''}'') @ us = w @ NL # ''```'' \<and> tail = us @ rest"
    then have "set ((a2 @ ''}'') @ us) = set (w @ NL # ''```'')"
      by simp
    moreover have "CHR ''}'' \<in> set ((a2 @ ''}'') @ us)"
      by simp
    ultimately have "CHR ''}'' \<in> set (w @ NL # ''```'')"
      by (rule subst)
    then have "CHR ''}'' \<in> set w \<or> CHR ''}'' \<in> set (NL # ''```'')"
      by auto
    moreover have "CHR ''}'' \<notin> set (NL # ''```'')"
      by (simp add: NL_def)
    moreover have "\<not> js_space (CHR ''}'')"
      by (simp add: js_space_def)
    ultimately show False
      using sp by blast
  qed
qed

lemma fence_at_first:
  assumes opened: "fence_open s = [r1]"
    and r1: "r1 = CHR ''{'' # a @ CHR ''}'' # tail"
    and inner: "\<And>a1 a2. a = a1 @ CHR ''}'' # a2 \<Longrightarrow> fence_close (a2 @ CHR ''}'' # tail) = []"
    and final: "fence_close tail \<noteq> []"
  shows "fence_at s = Some (take (length r1 - length tail) r1)"
proof -
  define f where "f = (\<lambda>r2. if fence_close r2 = [] then [] else [take (length r1 - length r2) r1])"
  have "\<exists>ys. concat (map f (concat (map (lit ''}'') (star_lazy (\<lambda>c. True) (a @ CHR ''}'' # tail)))))
              = f tail @ ys"
  proof (rule first_close)
    fix a1 a2
    assume "a = a1 @ CHR ''}'' # a2"
    then have "fence_close (a2 @ CHR ''}'' # tail) = []"
      by (rule inner)
    then show "f (a2 @ CHR ''}'' # tail) = []"
      by (simp add: f_def)
  qed
  then obtain ys where "concat (map f (fence_group r1)) = f tail @ ys"
    unfolding r1 fence_group_brace by blast
  moreover have "f tail = [take (length r1 - length tail) r1]"
    using final by (simp add: f_def)
  moreover have "fence_at s = (case concat (map f (fence_group r1)) of [] \<Rightarrow> None | g # _ \<Rightarrow> Some g)"
    by (simp add: fence_at_def opened f_def)
  ultimately show ?thesis
    by simp
qed

lemma fence_at_payload:
  assumes nofence: "\<not> js_includes (CHR ''{'' # t @ ''}'') (NL # ''```'')"
    and opened: "fence_open s = [CHR ''{'' # t @ CHR ''}'' # NL # ''```'' @ post]"
  shows "fence_at s = Some (CHR ''{'' # t @ ''}'')"
proof -
  have "fence_at s = Some (take (length (CHR ''{'' # t @ CHR ''}'' # NL # ''```'' @ post)
                                 - length (NL # ''```'' @ post))
                               (CHR ''{'' # t @ CHR ''}'' # NL # ''```'' @ post))"
    using opened
  proof (rule fence_at_first)
    show "CHR ''{'' # t @ CHR ''}'' # NL # ''```'' @ post = CHR ''{'' # t @ CHR ''}'' # NL # ''```'' @ post"
      by (rule refl)
    show "fence_close (NL # ''```'' @ post) \<noteq> []"
      by (rule fence_close_tail)
    fix a1 a2
    assume "t = a1 @ CHR ''}'' # a2"
    then show "fence_close (a2 @ CHR ''}'' # NL # ''```'' @ post) = []"
      by (rule inner_close_fails [OF nofence])
  qed
  then show ?thesis
    by simp
qed

lemma fence_open_early:
  assumes "\<not> js_includes (c # pre) ''```''"
  shows "fence_open (c # pre @ ''```'' @ r) = []"
proof (cases pre)
  case Nil
  then show ?thesis
    by (simp add: fence_open_def seq_def lit_def opt_def js_space_def NL_def)
next
  case (Cons x xs)
  show ?thesis
  proof (cases xs)
    case Nil
    with Cons show ?thesis
      by (simp add: fence_open_def seq_def lit_def opt_def js_space_def NL_def)
  next
    case (Cons y ys)
    with \<open>pre = x # xs\<close> assms have "\<not> (c = CHR 0x60 \<and> x = CHR 0x60 \<and> y = CHR 0x60)"
      by auto
    then have "lit ''```'' (c # x # y # ys @ ''```'' @ r) = []"
      by (auto simp: lit_def)
    with Cons \<open>pre = x # xs\<close> show ?thesis
      by (simp add: fence_open_def seq_def)
  qed
qed

lemma fencedMatch_skip:
  "\<not> js_includes pre ''```'' \<Longrightarrow> fencedMatch (pre @ ''```'' @ r) = fencedMatch (''```'' @ r)"
proof (induction pre)
  case Nil
  show ?case by simp
next
  case (Cons c pre)
  from Cons.prems have later: "\<not> js_includes pre ''```''"
    by simp
  from Cons.prems have "fence_open (c # pre @ ''```'' @ r) = []"
    by (rule fence_open_early)
  then have "fence_at (c # pre @ ''```'' @ r) = None"
    by (simp add: fence_at_def)
  with Cons.IH [OF later] show ?case by simp
qed

lemma fencedMatch_payload:
  assumes "\<not> js_includes (CHR ''{'' # t @ ''}'') (NL # ''```'')"
    and "\<not> js_includes pre ''```''"
    and "tag = ''json'' \<or> tag = []"
  shows "fencedMatch (pre @ ''```'' @ tag @ NL # CHR ''{'' # t @ ''}'' @ NL # ''```'' @ post)
         = Some (CHR ''{'' # t @ ''}'')"
proof -
  let ?s = "''```'' @ tag @ NL # CHR ''{'' # t @ ''}'' @ NL # ''```'' @ post"
  have "fence_open ?s = [CHR ''{'' # t @ CHR ''}'' # NL # ''```'' @ post]"
    using assms(3) fence_open_plain [of "t @ CHR ''}'' # NL # ''```'' @ post"]
      fence_open_json [of "t @ CHR ''}'' # NL # ''```'' @ post"] by auto
  then have "fence_at ?s = Some (CHR ''{'' # t @ ''}'')"
    by (rule fence_at_payload [OF assms(1)])
  then have "fencedMatch ?s = Some (CHR ''{'' # t @ ''}'')"
    by simp
  moreover have "fencedMatch (pre @ ?s) = fencedMatch ?s"
    using assms(2) by (rule fencedMatch_skip)
  ultimately show ?thesis by simp
qed

lemma brace_depth_Cons:
  "brace_depth (c # s)
   = (if c = CHR ''{'' then 1 else if c = CHR ''}'' then - 1 else 0) + brace_depth s"
  by (simp add: brace_depth_def)

lemma brace_scan_first_zero:
  assumes "p \<noteq> []"
    and "d + brace_depth p = 0"
    and "\<And>n. 1 \<le> n \<Longrightarrow> n < length p \<Longrightarrow> d + brace_depth (take n p) \<noteq> 0"
  shows "brace_scan d seen (p @ post) = Some (seen @ p)"
  using assms
proof (induction p arbitrary: d seen)
  case Nil
  then show ?case by simp
next
  case (Cons c cs)
  let ?d = "if c = CHR ''{'' then d + 1 else if c = CHR ''}'' then d - 1 else d"
  have step: "d + brace_depth (c # s) = ?d + brace_depth s" for s
    by (simp add: brace_depth_Cons)
  show ?case
  proof (cases "cs = []")
    case True
    with Cons.prems(2) have "?d = 0"
      using step [of "[]"] by (simp add: brace_depth_def)
    with True show ?thesis
      by (simp add: Let_def)
  next
    case False
    then have "1 < length (c # cs)"
      by (cases cs) simp_all
    with Cons.prems(3) [of 1] have "d + brace_depth [c] \<noteq> 0"
      by simp
    then have deeper: "?d \<noteq> 0"
      using step [of "[]"] by (simp add: brace_depth_def)
    have "brace_scan ?d (seen @ [c]) (cs @ post) = Some ((seen @ [c]) @ cs)"
    proof (rule Cons.IH [OF False])
      show "?d + brace_depth cs = 0"
        using Cons.prems(2) step [of cs] by simp
      fix n :: nat
      assume "1 \<le> n" "n < length cs"
      then have "d + brace_depth (take (Suc n) (c # cs)) \<noteq> 0"
        by (intro Cons.prems(3)) simp_all
      then show "?d + brace_depth (take n cs) \<noteq> 0"
        using step [of "take n cs"] by simp
    qed
    with deeper show ?thesis
      by (simp add: Let_def)
  qed
qed

lemma brace_scan_closes:
  assumes "closes_at_end p" and "p \<noteq> []"
  shows "brace_scan 0 [] (p @ post) = Some p"
proof -
  have "brace_scan 0 [] (p @ post) = Some ([] @ p)"
  proof (rule brace_scan_first_zero [OF assms(2)])
    show "0 + brace_depth p = 0"
      using assms(1) by (simp add: closes_at_end_def)
    fix n :: nat
    assume "1 \<le> n" "n < length p"
    then have "0 < brace_depth (take n p)"
      using assms(1) by (simp add: closes_at_end_def)
    then show "0 + brace_depth (take n p) \<noteq> 0"
      by simp
  qed
  then show ?thesis by simp
qed

lemma strategy3_embedded:
  assumes "CHR ''{'' \<notin> set pre"
    and "closes_at_end (CHR ''{'' # t)"
  shows "strategy3 P (pre @ CHR ''{'' # t @ post) = P (CHR ''{'' # t)"
proof -
  have "dropWhile (\<lambda>c. c \<noteq> CHR ''{'') (pre @ CHR ''{'' # t @ post) = CHR ''{'' # t @ post"
    using assms(1) by (induction pre) auto
  moreover have "brace_scan 0 [] ((CHR ''{'' # t) @ post) = Some (CHR ''{'' # t)"
    using assms(2) by (rule brace_scan_closes) simp
  ultimately show ?thesis
    by (simp add: strategy3_def del: brace_scan.simps)
qed

lemma trim_braced: "trim (CHR ''{'' # t @ ''}'') = CHR ''{'' # t @ ''}''"
  by (simp add: trim_def js_space_def)

lemma first_success_1: "strategy1 P r = Some v \<Longrightarrow> parseGeminiResponse P r = v"
  by (simp add: parseGeminiResponse_def)

lemma first_success_2:
  "strategy1 P r = None \<Longrightarrow> strategy2 P r = Some v \<Longrightarrow> parseGeminiResponse P r = v"
  by (simp add: parseGeminiResponse_def)

lemma first_success_3:
  "strategy1 P r = None \<Longrightarrow> strategy2 P r = None \<Longrightarrow> strategy3 P r = Some v
   \<Longrightarrow> parseGeminiResponse P r = v"
  by (simp add: parseGeminiResponse_def)

lemma fenced_payload:
  assumes valid: "P (CHR ''{'' # t @ ''}'') = Some v"
    and nofence: "\<not> js_includes (CHR ''{'' # t @ ''}'') (NL # ''```'')"
    and pre: "\<not> js_includes pre ''```''"
    and tag: "tag = ''json'' \<or> tag = []"
    and s1: "strategy1 P (pre @ ''```'' @ tag @ NL # (CHR ''{'' # t @ ''}'') @ NL # ''```'' @ post) = None"
  shows "strategy2 P (pre @ ''```'' @ tag @ NL # (CHR ''{'' # t @ ''}'') @ NL # ''```'' @ post) = Some v"
    and "parseGeminiResponse P (pre @ ''```'' @ tag @ NL # (CHR ''{'' # t @ ''}'') @ NL # ''```'' @ post) = v"
proof -
  let ?r = "pre @ ''```'' @ tag @ NL # (CHR ''{'' # t @ ''}'') @ NL # ''```'' @ post"
  have "fencedMatch (pre @ ''```'' @ tag @ NL # CHR ''{'' # t @ ''}'' @ NL # ''```'' @ post)
        = Some (CHR ''{'' # t @ ''}'')"
    using nofence pre tag by (rule fencedMatch_payload)
  then have "fencedMatch ?r = Some (CHR ''{'' # t @ ''}'')"
    by simp
  then show s2: "strategy2 P ?r = Some v"
    using valid by (simp add: strategy2_def)
  from s1 s2 show "parseGeminiResponse P ?r = v"
    by (rule first_success_2)
qed

lemma embedded_payload:
  assumes valid: "P (CHR ''{'' # t @ ''}'') = Some v"
    and pre: "CHR ''{'' \<notin> set pre"
    and scan: "closes_at_end (CHR ''{'' # t @ ''}'')"
    and s1: "strategy1 P (pre @ (CHR ''{'' # t @ ''}'') @ post) = None"
    and s2: "strategy2 P (pre @ (CHR ''{'' # t @ ''}'') @ post) = None"
  shows "strategy3 P (pre @ (CHR ''{'' # t @ ''}'') @ post) = Some v"
    and "parseGeminiResponse P (pre @ (CHR ''{'' # t @ ''}'') @ post) = v"
proof -
  let ?r = "pre @ (CHR ''{'' # t @ ''}'') @ post"
  have "strategy3 P (pre @ CHR ''{'' # (t @ ''}'') @ post) = P (CHR ''{'' # t @ ''}'')"
    using pre scan by (rule strategy3_embedded)
  then show s3: "strategy3 P ?r = Some v"
    using valid by simp
  from s1 s2 s3 show "parseGeminiResponse P ?r = v"
    by (rule first_success_3)
qed

text \<open>
  C3, as the code has it. The strategies run in order and the first that yields a value
  wins. For a payload \<open>p\<close> that opens with a brace, closes with one and parses to \<open>v\<close>:
  given alone, strategy 1 returns \<open>v\<close>; wrapped in a fence (tagged \<open>json\<close> or not), after
  any prose that holds no three backquotes in a row, with no newline-and-fence inside
  \<open>p\<close> and strategy 1 failing on the whole text, strategy 2 returns the same \<open>v\<close>;
  embedded in prose that has no opening brace before it, with strategies 1 and 2
  failing, the scan of strategy 3 yields exactly \<open>p\<close> and the strategy returns \<open>v\<close>,
  provided \<open>p\<close> closes at its end: its braces, counted as characters wherever they
  stand, inside string values too, come back to depth zero first at its last character.
\<close>

theorem parse_strategies_in_order:
  assumes payload: "p = CHR ''{'' # t @ ''}''"
    and valid: "P p = Some v"
  shows "(strategy1 P r = Some x \<longrightarrow> parseGeminiResponse P r = x)
       \<and> (strategy1 P r = None \<and> strategy2 P r = Some x \<longrightarrow> parseGeminiResponse P r = x)
       \<and> (strategy1 P r = None \<and> strategy2 P r = None \<and> strategy3 P r = Some x
            \<longrightarrow> parseGeminiResponse P r = x)
       \<and> strategy1 P p = Some v \<and> parseGeminiResponse P p = v
       \<and> (\<not> js_includes p (NL # ''```'') \<and> \<not> js_includes pre ''```''
            \<and> (tag = ''json'' \<or> tag = [])
            \<and> strategy1 P (pre @ ''```'' @ tag @ NL # p @ NL # ''```'' @ post) = None
            \<longrightarrow> strategy2 P (pre @ ''```'' @ tag @ NL # p @ NL # ''```'' @ post) = Some v
              \<and> parseGeminiResponse P (pre @ ''```'' @ tag @ NL # p @ NL # ''```'' @ post)
                  = parseGeminiResponse P p)
       \<and> (closes_at_end p \<longrightarrow> brace_scan 0 [] (p @ post') = Some p)
       \<and> (CHR ''{'' \<notin> set pre' \<and> closes_at_end p
            \<and> strategy1 P (pre' @ p @ post') = None \<and> strategy2 P (pre' @ p @ post') = None
            \<longrightarrow> strategy3 P (pre' @ p @ post') = Some v
              \<and> parseGeminiResponse P (pre' @ p @ post') = parseGeminiResponse P p)"
proof -
  have s1: "strategy1 P p = Some v"
    using valid by (simp add: strategy1_def payload trim_braced)
  then have direct: "parseGeminiResponse P p = v"
    by (rule first_success_1)
  have order: "(strategy1 P r = Some x \<longrightarrow> parseGeminiResponse P r = x)
       \<and> (strategy1 P r = None \<and> strategy2 P r = Some x \<longrightarrow> parseGeminiResponse P r = x)
       \<and> (strategy1 P r = None \<and> strategy2 P r = None \<and> strategy3 P r = Some x
            \<longrightarrow> parseGeminiResponse P r = x)"
    using first_success_1 first_success_2 first_success_3 by blast
  have fenced: "strategy2 P (pre @ ''```'' @ tag @ NL # p @ NL # ''```'' @ post) = Some v
              \<and> parseGeminiResponse P (pre @ ''```'' @ tag @ NL # p @ NL # ''```'' @ post)
                  = parseGeminiResponse P p"
    if "\<not> js_includes p (NL # ''```'')" "\<not> js_includes pre ''```''" "tag = ''json'' \<or> tag = []"
      "strategy1 P (pre @ ''```'' @ tag @ NL # p @ NL # ''```'' @ post) = None"
    using fenced_payload [of P t v pre tag post] that valid direct unfolding payload by simp
  have scan: "brace_scan 0 [] (p @ post') = Some p" if "closes_at_end p"
    using that by (rule brace_scan_closes) (simp add: payload)
  have embedded: "strategy3 P (pre' @ p @ post') = Some v
              \<and> parseGeminiResponse P (pre' @ p @ post') = parseGeminiResponse P p"
    if "CHR ''{'' \<notin> set pre'" "closes_at_end p"
      "strategy1 P (pre' @ p @ post') = None" "strategy2 P (pre' @ p @ post') = None"
    using embedded_payload [of P t v pre' post'] that valid direct unfolding payload by simp
  from order s1 direct fenced scan embedded show ?thesis
    by blast
qed

theorem parse_strategies_in_order_witness:
  "JSON_parse ''{\"summary\": \"wrap {x} in try\", \"issues\": [{\"severity\": \"LOW\"}]}''
     = Some (JObject [(''summary'', JString ''wrap {x} in try''),
                      (''issues'', JArray [JObject [(''severity'', JString ''LOW'')]])])
   \<and> strategy1 JSON_parse
        ''{\"summary\": \"wrap {x} in try\", \"issues\": [{\"severity\": \"LOW\"}]}''
     = Some (JObject [(''summary'', JString ''wrap {x} in try''),
                      (''issues'', JArray [JObject [(''severity'', JString ''LOW'')]])])
   \<and> parseGeminiResponse JSON_parse
        ''{\"summary\": \"wrap {x} in try\", \"issues\": [{\"severity\": \"LOW\"}]}''
     = JObject [(''summary'', JString ''wrap {x} in try''),
                (''issues'', JArray [JObject [(''severity'', JString ''LOW'')]])]
   \<and> strategy1 JSON_parse
        ((''Here is the `review`:'' @ [NL]) @ ''```'' @ ''json'' @ NL
          # ''{\"summary\": \"wrap {x} in try\", \"issues\": [{\"severity\": \"LOW\"}]}''
          @ NL # ''```'' @ (NL # ''Done.''))
     = None
   \<and> strategy2 JSON_parse
        ((''Here is the `review`:'' @ [NL]) @ ''```'' @ ''json'' @ NL
          # ''{\"summary\": \"wrap {x} in try\", \"issues\": [{\"severity\": \"LOW\"}]}''
          @ NL # ''```'' @ (NL # ''Done.''))
     = Some (JObject [(''summary'', JString ''wrap {x} in try''),
                      (''issues'', JArray [JObject [(''severity'', JString ''LOW'')]])])
   \<and> parseGeminiResponse JSON_parse
        ((''Here is the `review`:'' @ [NL]) @ ''```'' @ ''json'' @ NL
          # ''{\"summary\": \"wrap {x} in try\", \"issues\": [{\"severity\": \"LOW\"}]}''
          @ NL # ''```'' @ (NL # ''Done.''))
     = JObject [(''summary'', JString ''wrap {x} in try''),
                (''issues'', JArray [JObject [(''severity'', JString ''LOW'')]])]
   \<and> closes_at_end ''{\"summary\": \"wrap {x} in try\", \"issues\": [{\"severity\": \"LOW\"}]}''
   \<and> brace_scan 0 []
        (''{\"summary\": \"wrap {x} in try\", \"issues\": [{\"severity\": \"LOW\"}]}'' @ '' (end)'')
     = Some ''{\"summary\": \"wrap {x} in try\", \"issues\": [{\"severity\": \"LOW\"}]}''
   \<and> strategy1 JSON_parse
        (''Review result: ''
          @ ''{\"summary\": \"wrap {x} in try\", \"issues\": [{\"severity\": \"LOW\"}]}'' @ '' (end)'')
     = None
   \<and> strategy2 JSON_parse
        (''Review result: ''
          @ ''{\"summary\": \"wrap {x} in try\", \"issues\": [{\"severity\": \"LOW\"}]}'' @ '' (end)'')
     = None
   \<and> strategy3 JSON_parse
        (''Review result: ''
          @ ''{\"summary\": \"wrap {x} in try\", \"issues\": [{\"severity\": \"LOW\"}]}'' @ '' (end)'')
     = Some (JObject [(''summary'', JString ''wrap {x} in try''),
                      (''issues'', JArray [JObject [(''severity'', JString ''LOW'')]])])
   \<and> parseGeminiResponse JSON_parse
        (''Review result: ''
          @ ''{\"summary\": \"wrap {x} in try\", \"issues\": [{\"severity\": \"LOW\"}]}'' @ '' (end)'')
     = JObject [(''summary'', JString ''wrap {x} in try''),
                (''issues'', JArray [JObject [(''severity'', JString ''LOW'')]])]"
proof -
  let ?p = "''{\"summary\": \"wrap {x} in try\", \"issues\": [{\"severity\": \"LOW\"}]}''"
  let ?t = "''\"summary\": \"wrap {x} in try\", \"issues\": [{\"severity\": \"LOW\"}]''"
  let ?v = "JObject [(''summary'', JString ''wrap {x} in try''),
                     (''issues'', JArray [JObject [(''severity'', JString ''LOW'')]])]"
  let ?fenced = "(''Here is the `review`:'' @ [NL]) @ ''```'' @ ''json'' @ NL # ?p @ NL # ''```''
                 @ (NL # ''Done.'')"
  let ?embedded = "''Review result: '' @ ?p @ '' (end)''"
  have payload: "?p = CHR ''{'' # ?t @ ''}''"
    by simp
  have valid: "JSON_parse ?p = Some ?v"
    by code_simp
  have f1: "\<not> js_includes ?p (NL # ''```'')"
    by code_simp
  have f2: "\<not> js_includes (''Here is the `review`:'' @ [NL]) ''```''"
    by code_simp
  have f3: "strategy1 JSON_parse ?fenced = None"
    by code_simp
  have e1: "CHR ''{'' \<notin> set ''Review result: ''"
    by code_simp
  have e2: "closes_at_end ?p"
    by code_simp
  have e3: "strategy1 JSON_parse ?embedded = None"
    by code_simp
  have e4: "strategy2 JSON_parse ?embedded = None"
    by code_simp
  note main = parse_strategies_in_order [where P = JSON_parse and p = ?p and t = ?t and v = ?v
        and pre = "''Here is the `review`:'' @ [NL]" and tag = "''json''" and post = "NL # ''Done.''"
        and pre' = "''Review result: ''" and post' = "'' (end)''", OF payload valid]
  from main have direct: "strategy1 JSON_parse ?p = Some ?v \<and> parseGeminiResponse JSON_parse ?p = ?v"
    by blast
  from main f1 f2 f3 have fenced: "strategy2 JSON_parse ?fenced = Some ?v
      \<and> parseGeminiResponse JSON_parse ?fenced = parseGeminiResponse JSON_parse ?p"
    by blast
  from main e2 have scan: "brace_scan 0 [] (?p @ '' (end)'') = Some ?p"
    by blast
  from main e1 e2 e3 e4 have embedded: "strategy3 JSON_parse ?embedded = Some ?v
      \<and> parseGeminiResponse JSON_parse ?embedded = parseGeminiResponse JSON_parse ?p"
    by blast
  from valid direct f3 fenced e2 scan e3 e4 embedded show ?thesis
    by simp
qed

text \<open>
  C3 as stated fails on the code. A closing brace inside a string value ends the scan of
  strategy 3 early, the truncated text does not parse, and the result is the degraded
  verdict although the payload is valid. A brace in the prose before the payload does
  the same to a payload whose own braces are balanced. A fence earlier in the prose
  that holds a braced text is the one the pattern finds: the payload in the fence after
  it is never looked at. And a payload that is valid but not an object text is returned
  whole by strategy 1, while the fence pattern, which wants a brace after the fence
  line, leaves it to strategy 3, which returns its first braced part only.
\<close>

theorem parse_strategies_counterexample:
  "JSON_parse ''{\"summary\": \"stray } before {\", \"issues\": []}''
     = Some (JObject [(''summary'', JString ''stray } before {''), (''issues'', JArray [])])
   \<and> \<not> closes_at_end ''{\"summary\": \"stray } before {\", \"issues\": []}''
   \<and> parseGeminiResponse JSON_parse
        ''Review: {\"summary\": \"stray } before {\", \"issues\": []} Done.''
     = rawFallback ''Review: {\"summary\": \"stray } before {\", \"issues\": []} Done.''
   \<and> JSON_parse ''{\"summary\": \"wrap {x} in try\", \"issues\": []}''
     = Some (JObject [(''summary'', JString ''wrap {x} in try''), (''issues'', JArray [])])
   \<and> parseGeminiResponse JSON_parse
        ''In run() {see below} I found: {\"summary\": \"wrap {x} in try\", \"issues\": []}''
     = rawFallback
        ''In run() {see below} I found: {\"summary\": \"wrap {x} in try\", \"issues\": []}''
   \<and> strategy2 JSON_parse
        (''Replace'' @ NL # ''```'' @ NL # ''{ run(); }'' @ NL # ''```'' @ NL # ''Verdict:'' @ NL
          # ''```json'' @ NL # ''{\"summary\": \"wrap {x} in try\", \"issues\": []}'' @ NL # ''```'')
     = None
   \<and> parseGeminiResponse JSON_parse
        (''Replace'' @ NL # ''```'' @ NL # ''{ run(); }'' @ NL # ''```'' @ NL # ''Verdict:'' @ NL
          # ''```json'' @ NL # ''{\"summary\": \"wrap {x} in try\", \"issues\": []}'' @ NL # ''```'')
     = rawFallback
        (''Replace'' @ NL # ''```'' @ NL # ''{ run(); }'' @ NL # ''```'' @ NL # ''Verdict:'' @ NL
          # ''```json'' @ NL # ''{\"summary\": \"wrap {x} in try\", \"issues\": []}'' @ NL # ''```'')
   \<and> parseGeminiResponse JSON_parse ''[{\"severity\": \"HIGH\"}, {\"severity\": \"LOW\"}]''
     = JArray [JObject [(''severity'', JString ''HIGH'')], JObject [(''severity'', JString ''LOW'')]]
   \<and> strategy2 JSON_parse
        (''```json'' @ NL # ''[{\"severity\": \"HIGH\"}, {\"severity\": \"LOW\"}]'' @ NL # ''```'')
     = None
   \<and> parseGeminiResponse JSON_parse
        (''```json'' @ NL # ''[{\"severity\": \"HIGH\"}, {\"severity\": \"LOW\"}]'' @ NL # ''```'')
     = JObject [(''severity'', JString ''HIGH'')]"
  by code_simp


section \<open>The aggregate verdict\<close>

lemma review_main_pass:
  assumes "review_main P faults focus codeContext sec qual = (code, Some doc)"
  shows "passesReview doc = (securityPass (securityReview doc) \<and> qualityPass (qualityReview doc))"
    and "\<not> passesReview doc \<Longrightarrow> code = 1"
    and "focus \<Longrightarrow> qualityReview doc = None"
  using assms
  by (auto simp: review_main_def Let_def split: if_splits prod.splits)

lemma reviewStep_verdict:
  assumes "outcome = Inr (Some (JString text))"
    and "parseGeminiResponse P text \<noteq> JNull"
    and "\<not> faults tier (parseGeminiResponse P text)"
  shows "fst (reviewStep P faults tier outcome) = Verdict (parseGeminiResponse P text)"
  using assms by (simp add: reviewStep_def Let_def)

lemma review_main_reviews:
  assumes "review_main P faults focus codeContext sec qual = (code, Some doc)"
  shows "securityReview doc = fst (reviewStep P faults ''overallRisk'' (callGemini P sec))"
    and "\<not> focus \<Longrightarrow>
         qualityReview doc = Some (fst (reviewStep P faults ''overallQuality'' (callGemini P qual)))"
  using assms
  by (auto simp: review_main_def Let_def split: if_splits prod.splits)

lemma securityPass_verdict:
  "securityPass (Verdict sv) \<longleftrightarrow>
     \<not> truthy_opt (get_prop sv ''overallRisk'')
     \<or> get_prop sv ''overallRisk'' = Some (JString ''LOW'')
     \<or> get_prop sv ''overallRisk'' = Some (JString ''MEDIUM'')"
  by (auto simp: securityPass_def)

lemma qualityPass_verdict:
  "qualityPass (Some (Verdict qv)) \<longleftrightarrow>
     \<not> truthy_opt (get_prop qv ''overallQuality'')
     \<or> get_prop qv ''overallQuality'' = Some (JString ''EXCELLENT'')
     \<or> get_prop qv ''overallQuality'' = Some (JString ''GOOD'')
     \<or> get_prop qv ''overallQuality'' = Some (JString ''ACCEPTABLE'')"
  by (auto simp: qualityPass_def)

lemma gates_verify_main:
  "tests (fst (verify_main P args w)) = runTests P (verify_options_of args) w"
  "lint (fst (verify_main P args w)) = runLint P (verify_options_of args) w"
  "audit (fst (verify_main P args w)) = runAudit w"
  "aiReview (fst (verify_main P args w)) = runAiReview (verify_options_of args) w"
  by (simp_all add: verify_main_def Let_def)

lemma tier_outside_risk:
  assumes "get_prop sv ''overallRisk'' = Some (JString risk)" and "risk \<noteq> []"
    and "risk \<noteq> ''LOW''" and "risk \<noteq> ''MEDIUM''"
  shows "\<not> securityPass (Verdict sv)"
  using assms by (simp add: securityPass_verdict truthy_opt_def)

lemma tier_outside_quality:
  assumes "get_prop qv ''overallQuality'' = Some (JString quality)" and "quality \<noteq> []"
    and "quality \<noteq> ''EXCELLENT''" and "quality \<noteq> ''GOOD''" and "quality \<noteq> ''ACCEPTABLE''"
  shows "\<not> qualityPass (Some (Verdict qv))"
  using assms by (simp add: qualityPass_verdict truthy_opt_def)

text \<open>
  C2, as the code has it. \<open>overallPass\<close> is true exactly when tests, lint and AI review
  each succeeded or were skipped and the audit succeeded; the exit code is 0 exactly
  when it is true and the summary print does not raise. A review that ran and left its
  document succeeds exactly when the document's \<open>passesReview\<close> is true, which is
  \<open>securityPass\<close> and \<open>qualityPass\<close> of what the two review blocks stored. A block
  whose reply was received and whose verdict was parsed and reported without an
  exception stores that verdict. A security verdict passes when its risk tier is
  missing or falsy, or is \<open>LOW\<close> or \<open>MEDIUM\<close>; the quality side passes when there was no
  quality review, or the tier is missing or falsy, or is \<open>EXCELLENT\<close>, \<open>GOOD\<close> or
  \<open>ACCEPTABLE\<close>. So for such a block a non-empty tier outside its set fails the
  review: \<open>passesReview\<close> is false, the review script exits with code 1, and in the
  verification run that reads the document \<open>overallPass\<close> is false and the exit code
  is 1.
\<close>

theorem overall_pass_rule:
  "(is_true (overallPass (the (summary (fst (verify_main P args w))))) \<longleftrightarrow>
      (is_true (success (tests (fst (verify_main P args w))))
         \<or> is_true (skipped (tests (fst (verify_main P args w)))))
      \<and> (is_true (success (lint (fst (verify_main P args w))))
           \<or> is_true (skipped (lint (fst (verify_main P args w)))))
      \<and> is_true (success (audit (fst (verify_main P args w))))
      \<and> (is_true (success (aiReview (fst (verify_main P args w))))
           \<or> is_true (skipped (aiReview (fst (verify_main P args w))))))
   \<and> (snd (verify_main P args w) = 0 \<longleftrightarrow>
        is_true (overallPass (the (summary (fst (verify_main P args w)))))
        \<and> \<not> summary_print_throws (aiReview (fst (verify_main P args w))))
   \<and> (\<not> skipAiReview (verify_options_of args) \<and> GEMINI_API_KEY w \<noteq> None
        \<and> GEMINI_API_KEY w \<noteq> Some [] \<and> existsSync w (aiReviewPath w)
        \<and> ai_result_file w = ResultFile doc
        \<longrightarrow> success (aiReview (fst (verify_main P args w))) = Some (passesReview doc)
          \<and> skipped (aiReview (fst (verify_main P args w))) = None
          \<and> (\<not> passesReview doc
               \<longrightarrow> \<not> is_true (overallPass (the (summary (fst (verify_main P args w)))))
                 \<and> snd (verify_main P args w) = 1))
   \<and> (review_main P' faults focus codeContext sec qual = (code, Some doc')
        \<longrightarrow> passesReview doc'
              = (securityPass (securityReview doc') \<and> qualityPass (qualityReview doc'))
          \<and> (focus \<longrightarrow> qualityReview doc' = None)
          \<and> (callGemini P' sec = Inr (Some (JString stext))
               \<and> parseGeminiResponse P' stext = sv \<and> sv \<noteq> JNull \<and> \<not> faults ''overallRisk'' sv
               \<longrightarrow> securityReview doc' = Verdict sv)
          \<and> (\<not> focus \<and> callGemini P' qual = Inr (Some (JString qtext))
               \<and> parseGeminiResponse P' qtext = qv \<and> qv \<noteq> JNull \<and> \<not> faults ''overallQuality'' qv
               \<longrightarrow> qualityReview doc' = Some (Verdict qv)))
   \<and> (securityPass (Verdict sv) \<longleftrightarrow>
        \<not> truthy_opt (get_prop sv ''overallRisk'')
        \<or> get_prop sv ''overallRisk'' = Some (JString ''LOW'')
        \<or> get_prop sv ''overallRisk'' = Some (JString ''MEDIUM''))
   \<and> qualityPass None
   \<and> (qualityPass (Some (Verdict qv)) \<longleftrightarrow>
        \<not> truthy_opt (get_prop qv ''overallQuality'')
        \<or> get_prop qv ''overallQuality'' = Some (JString ''EXCELLENT'')
        \<or> get_prop qv ''overallQuality'' = Some (JString ''GOOD'')
        \<or> get_prop qv ''overallQuality'' = Some (JString ''ACCEPTABLE''))
   \<and> (review_main P' faults focus codeContext sec qual = (code, Some doc')
        \<and> callGemini P' sec = Inr (Some (JString stext))
        \<and> parseGeminiResponse P' stext = sv \<and> \<not> faults ''overallRisk'' sv
        \<and> get_prop sv ''overallRisk'' = Some (JString risk) \<and> risk \<noteq> []
        \<and> risk \<noteq> ''LOW'' \<and> risk \<noteq> ''MEDIUM''
        \<longrightarrow> \<not> passesReview doc' \<and> code = 1)
   \<and> (review_main P' faults focus codeContext sec qual = (code, Some doc')
        \<and> \<not> focus \<and> callGemini P' qual = Inr (Some (JString qtext))
        \<and> parseGeminiResponse P' qtext = qv \<and> \<not> faults ''overallQuality'' qv
        \<and> get_prop qv ''overallQuality'' = Some (JString quality) \<and> quality \<noteq> []
        \<and> quality \<noteq> ''EXCELLENT'' \<and> quality \<noteq> ''GOOD'' \<and> quality \<noteq> ''ACCEPTABLE''
        \<longrightarrow> \<not> passesReview doc' \<and> code = 1)"
proof -
  let ?st = "fst (verify_main P args w)"
  have a: "is_true (overallPass (the (summary ?st))) \<longleftrightarrow>
      (is_true (success (tests ?st)) \<or> is_true (skipped (tests ?st)))
      \<and> (is_true (success (lint ?st)) \<or> is_true (skipped (lint ?st)))
      \<and> is_true (success (audit ?st))
      \<and> (is_true (success (aiReview ?st)) \<or> is_true (skipped (aiReview ?st)))"
    by (simp add: summary_verify_main overallPass_summarise gates_verify_main)
  have b: "snd (verify_main P args w) = 0 \<longleftrightarrow>
        is_true (overallPass (the (summary ?st))) \<and> \<not> summary_print_throws (aiReview ?st)"
    by (rule exit_verify_main)
  have c: "success (aiReview ?st) = Some (passesReview doc) \<and> skipped (aiReview ?st) = None
          \<and> (\<not> passesReview doc
               \<longrightarrow> \<not> is_true (overallPass (the (summary ?st))) \<and> snd (verify_main P args w) = 1)"
    if "\<not> skipAiReview (verify_options_of args)" "GEMINI_API_KEY w \<noteq> None"
      "GEMINI_API_KEY w \<noteq> Some []" "existsSync w (aiReviewPath w)"
      "ai_result_file w = ResultFile doc"
  proof -
    from runAiReview_document [OF that]
    have s: "success (aiReview ?st) = Some (passesReview doc)" and k: "skipped (aiReview ?st) = None"
      by (simp_all add: gates_verify_main)
    have "\<not> is_true (overallPass (the (summary ?st))) \<and> snd (verify_main P args w) = 1"
      if "\<not> passesReview doc"
    proof -
      from that s k have "\<not> is_true (overallPass (the (summary ?st)))"
        unfolding a by (simp add: is_true_def)
      then show ?thesis
        using exit_verify_main_failed by blast
    qed
    with s k show ?thesis
      by blast
  qed
  have sec_stored: "securityReview doc' = Verdict sv"
    if "review_main P' faults focus codeContext sec qual = (code, Some doc')"
      "callGemini P' sec = Inr (Some (JString stext))" "parseGeminiResponse P' stext = sv"
      "sv \<noteq> JNull" "\<not> faults ''overallRisk'' sv"
    using review_main_reviews(1) [OF that(1)]
      reviewStep_verdict [of "callGemini P' sec" stext P' faults "''overallRisk''"] that
    by simp
  have qual_stored: "qualityReview doc' = Some (Verdict qv)"
    if "review_main P' faults focus codeContext sec qual = (code, Some doc')" "\<not> focus"
      "callGemini P' qual = Inr (Some (JString qtext))" "parseGeminiResponse P' qtext = qv"
      "qv \<noteq> JNull" "\<not> faults ''overallQuality'' qv"
    using review_main_reviews(2) [OF that(1,2)]
      reviewStep_verdict [of "callGemini P' qual" qtext P' faults "''overallQuality''"] that
    by simp
  have d: "passesReview doc'
              = (securityPass (securityReview doc') \<and> qualityPass (qualityReview doc'))
          \<and> (focus \<longrightarrow> qualityReview doc' = None)
          \<and> (callGemini P' sec = Inr (Some (JString stext))
               \<and> parseGeminiResponse P' stext = sv \<and> sv \<noteq> JNull \<and> \<not> faults ''overallRisk'' sv
               \<longrightarrow> securityReview doc' = Verdict sv)
          \<and> (\<not> focus \<and> callGemini P' qual = Inr (Some (JString qtext))
               \<and> parseGeminiResponse P' qtext = qv \<and> qv \<noteq> JNull \<and> \<not> faults ''overallQuality'' qv
               \<longrightarrow> qualityReview doc' = Some (Verdict qv))"
    if run: "review_main P' faults focus codeContext sec qual = (code, Some doc')"
    using review_main_pass(1,3) [OF run] sec_stored [OF run] qual_stored [OF run] by blast
  have e: "qualityPass None"
    by (simp add: qualityPass_def)
  have f: "\<not> passesReview doc' \<and> code = 1"
    if run: "review_main P' faults focus codeContext sec qual = (code, Some doc')"
      and "callGemini P' sec = Inr (Some (JString stext))" "parseGeminiResponse P' stext = sv"
      "\<not> faults ''overallRisk'' sv"
      and tier: "get_prop sv ''overallRisk'' = Some (JString risk)" "risk \<noteq> []"
      "risk \<noteq> ''LOW''" "risk \<noteq> ''MEDIUM''"
  proof -
    from tier(1) have "sv \<noteq> JNull"
      by auto
    with that have "securityReview doc' = Verdict sv"
      using sec_stored by blast
    moreover have "\<not> securityPass (Verdict sv)"
      using tier by (rule tier_outside_risk)
    ultimately have "\<not> passesReview doc'"
      using review_main_pass(1) [OF run] by simp
    then show ?thesis
      using review_main_pass(2) [OF run] by simp
  qed
  have g: "\<not> passesReview doc' \<and> code = 1"
    if run: "review_main P' faults focus codeContext sec qual = (code, Some doc')"
      and "\<not> focus" "callGemini P' qual = Inr (Some (JString qtext))"
      "parseGeminiResponse P' qtext = qv" "\<not> faults ''overallQuality'' qv"
      and tier: "get_prop qv ''overallQuality'' = Some (JString quality)" "quality \<noteq> []"
      "quality \<noteq> ''EXCELLENT''" "quality \<noteq> ''GOOD''" "quality \<noteq> ''ACCEPTABLE''"
  proof -
    from tier(1) have "qv \<noteq> JNull"
      by auto
    with that have "qualityReview doc' = Some (Verdict qv)"
      using qual_stored by blast
    moreover have "\<not> qualityPass (Some (Verdict qv))"
      using tier by (rule tier_outside_quality)
    ultimately have "\<not> passesReview doc'"
      using review_main_pass(1) [OF run] by simp
    then show ?thesis
      using review_main_pass(2) [OF run] by simp
  qed
  show ?thesis
    apply (intro conjI)
            apply (rule a)
           apply (rule b)
          apply (use c in blast)
         apply (use d in blast)
        apply (rule securityPass_verdict)
       apply (rule e)
      apply (rule qualityPass_verdict)
     apply (use f in blast)
    apply (use g in blast)
    done
qed


theorem overall_pass_rule_witness:
  "callGemini JSON_parse
      (gemini_reply
         ''{\"overallRisk\": \"HIGH\", \"issues\": [{\"severity\": \"HIGH\", \"location\": \"src/a.js:3\", \"description\": \"eval of input\"}]}'')
     = Inr (Some (JString
         ''{\"overallRisk\": \"HIGH\", \"issues\": [{\"severity\": \"HIGH\", \"location\": \"src/a.js:3\", \"description\": \"eval of input\"}]}''))
   \<and> parseGeminiResponse JSON_parse
        ''{\"overallRisk\": \"HIGH\", \"issues\": [{\"severity\": \"HIGH\", \"location\": \"src/a.js:3\", \"description\": \"eval of input\"}]}''
     = JObject [(''overallRisk'', JString ''HIGH''),
                (''issues'', JArray [JObject [(''severity'', JString ''HIGH''),
                                              (''location'', JString ''src/a.js:3''),
                                              (''description'', JString ''eval of input'')]])]
   \<and> \<not> report_raises ''overallRisk''
         (JObject [(''overallRisk'', JString ''HIGH''),
                (''issues'', JArray [JObject [(''severity'', JString ''HIGH''),
                                              (''location'', JString ''src/a.js:3''),
                                              (''description'', JString ''eval of input'')]])])
   \<and> parseGeminiResponse JSON_parse ''{\"overallQuality\": \"NEEDS_WORK\", \"issues\": []}''
     = JObject [(''overallQuality'', JString ''NEEDS_WORK''), (''issues'', JArray [])]
   \<and> \<not> report_raises ''overallQuality'' (JObject [(''overallQuality'', JString ''NEEDS_WORK''), (''issues'', JArray [])])
   \<and> review_main JSON_parse report_raises False (replicate 50 (CHR ''x''))
        (gemini_reply
           ''{\"overallRisk\": \"HIGH\", \"issues\": [{\"severity\": \"HIGH\", \"location\": \"src/a.js:3\", \"description\": \"eval of input\"}]}'')
        (gemini_reply ''{\"overallQuality\": \"NEEDS_WORK\", \"issues\": []}'')
     = (1, Some \<lparr> securityReview = Verdict (JObject [(''overallRisk'', JString ''HIGH''),
                (''issues'', JArray [JObject [(''severity'', JString ''HIGH''),
                                              (''location'', JString ''src/a.js:3''),
                                              (''description'', JString ''eval of input'')]])]),
          qualityReview = Some (Verdict (JObject [(''overallQuality'', JString ''NEEDS_WORK''), (''issues'', JArray [])])),
          sum_securityRisk = JString ''HIGH'', sum_codeQuality = JString ''NEEDS_WORK'',
          passesReview = False \<rparr>)
   \<and> success (aiReview (fst (verify_main JSON_parse []
        (after_review False
        (review_main JSON_parse report_raises False (replicate 50 (CHR ''x''))
        (gemini_reply
           ''{\"overallRisk\": \"HIGH\", \"issues\": [{\"severity\": \"HIGH\", \"location\": \"src/a.js:3\", \"description\": \"eval of input\"}]}'')
        (gemini_reply ''{\"overallQuality\": \"NEEDS_WORK\", \"issues\": []}''))
        sample_world)))) = Some False
   \<and> \<not> is_true (overallPass (the (summary (fst (verify_main JSON_parse []
        (after_review False
        (review_main JSON_parse report_raises False (replicate 50 (CHR ''x''))
        (gemini_reply
           ''{\"overallRisk\": \"HIGH\", \"issues\": [{\"severity\": \"HIGH\", \"location\": \"src/a.js:3\", \"description\": \"eval of input\"}]}'')
        (gemini_reply ''{\"overallQuality\": \"NEEDS_WORK\", \"issues\": []}''))
        sample_world))))))
   \<and> snd (verify_main JSON_parse []
        (after_review False
        (review_main JSON_parse report_raises False (replicate 50 (CHR ''x''))
        (gemini_reply
           ''{\"overallRisk\": \"HIGH\", \"issues\": [{\"severity\": \"HIGH\", \"location\": \"src/a.js:3\", \"description\": \"eval of input\"}]}'')
        (gemini_reply ''{\"overallQuality\": \"NEEDS_WORK\", \"issues\": []}''))
        sample_world)) = 1"
proof -
  let ?stext = "''{\"overallRisk\": \"HIGH\", \"issues\": [{\"severity\": \"HIGH\", \"location\": \"src/a.js:3\", \"description\": \"eval of input\"}]}''"
  let ?qtext = "''{\"overallQuality\": \"NEEDS_WORK\", \"issues\": []}''"
  let ?sv = "JObject [(''overallRisk'', JString ''HIGH''),
                (''issues'', JArray [JObject [(''severity'', JString ''HIGH''),
                                              (''location'', JString ''src/a.js:3''),
                                              (''description'', JString ''eval of input'')]])]"
  let ?qv = "JObject [(''overallQuality'', JString ''NEEDS_WORK''), (''issues'', JArray [])]"
  let ?doc = "\<lparr> securityReview = Verdict (JObject [(''overallRisk'', JString ''HIGH''),
                (''issues'', JArray [JObject [(''severity'', JString ''HIGH''),
                                              (''location'', JString ''src/a.js:3''),
                                              (''description'', JString ''eval of input'')]])]),
          qualityReview = Some (Verdict (JObject [(''overallQuality'', JString ''NEEDS_WORK''), (''issues'', JArray [])])),
          sum_securityRisk = JString ''HIGH'', sum_codeQuality = JString ''NEEDS_WORK'',
          passesReview = False \<rparr>"
  let ?run = "review_main JSON_parse report_raises False (replicate 50 (CHR ''x''))
        (gemini_reply
           ''{\"overallRisk\": \"HIGH\", \"issues\": [{\"severity\": \"HIGH\", \"location\": \"src/a.js:3\", \"description\": \"eval of input\"}]}'')
        (gemini_reply ''{\"overallQuality\": \"NEEDS_WORK\", \"issues\": []}'')"
  let ?w = "after_review False ?run sample_world"
  note rule = overall_pass_rule [where P = JSON_parse and args = "[]" and w = ?w and doc = ?doc
      and P' = JSON_parse and faults = report_raises and focus = False
      and codeContext = "replicate 50 (CHR ''x'')"
      and sec = "gemini_reply ?stext" and qual = "gemini_reply ?qtext"
      and code = 1 and doc' = ?doc and stext = ?stext and qtext = ?qtext and sv = ?sv and qv = ?qv
      and risk = "''HIGH''" and quality = "''NEEDS_WORK''"]
  have run: "?run = (1, Some ?doc)"
    by code_simp
  have sreply: "callGemini JSON_parse (gemini_reply ?stext) = Inr (Some (JString ?stext))"
    by code_simp
  have qreply: "callGemini JSON_parse (gemini_reply ?qtext) = Inr (Some (JString ?qtext))"
    by code_simp
  have sparse: "parseGeminiResponse JSON_parse ?stext = ?sv"
    by code_simp
  have qparse: "parseGeminiResponse JSON_parse ?qtext = ?qv"
    by code_simp
  have sreport: "\<not> report_raises ''overallRisk'' ?sv"
    by code_simp
  have qreport: "\<not> report_raises ''overallQuality'' ?qv"
    by code_simp
  have gate: "\<not> skipAiReview (verify_options_of []) \<and> GEMINI_API_KEY ?w \<noteq> None
        \<and> GEMINI_API_KEY ?w \<noteq> Some [] \<and> existsSync ?w (aiReviewPath ?w)
        \<and> ai_result_file ?w = ResultFile ?doc"
    unfolding run
    by (simp add: verify_options_of_def sample_world_def existsSync_def after_review_def)
  have risk: "get_prop ?sv ''overallRisk'' = Some (JString ''HIGH'') \<and> ''HIGH'' \<noteq> []
        \<and> ''HIGH'' \<noteq> ''LOW'' \<and> ''HIGH'' \<noteq> ''MEDIUM''"
    by simp
  have quality: "get_prop ?qv ''overallQuality'' = Some (JString ''NEEDS_WORK'')
        \<and> ''NEEDS_WORK'' \<noteq> [] \<and> ''NEEDS_WORK'' \<noteq> ''EXCELLENT'' \<and> ''NEEDS_WORK'' \<noteq> ''GOOD''
        \<and> ''NEEDS_WORK'' \<noteq> ''ACCEPTABLE''"
    by simp
  note stored = rule [THEN conjunct2, THEN conjunct2, THEN conjunct1]
  note risk_rule = rule [THEN conjunct2, THEN conjunct2, THEN conjunct2, THEN conjunct2, THEN conjunct2, THEN conjunct2, THEN conjunct2, THEN conjunct1]
  note quality_rule = rule [THEN conjunct2, THEN conjunct2, THEN conjunct2, THEN conjunct2, THEN conjunct2, THEN conjunct2, THEN conjunct2, THEN conjunct2]
  have r1: "\<not> passesReview ?doc \<and> (1 :: nat) = 1"
    by (rule risk_rule [THEN mp]) (intro conjI run sreply sparse sreport risk [THEN conjunct1]
        risk [THEN conjunct2, THEN conjunct1] risk [THEN conjunct2, THEN conjunct2, THEN conjunct1]
        risk [THEN conjunct2, THEN conjunct2, THEN conjunct2])
  have r2: "\<not> passesReview ?doc \<and> (1 :: nat) = 1"
    by (rule quality_rule [THEN mp]) (intro conjI run qreply qparse qreport
        quality [THEN conjunct1] quality [THEN conjunct2, THEN conjunct1]
        quality [THEN conjunct2, THEN conjunct2, THEN conjunct1]
        quality [THEN conjunct2, THEN conjunct2, THEN conjunct2, THEN conjunct1]
        quality [THEN conjunct2, THEN conjunct2, THEN conjunct2, THEN conjunct2], simp)
  from stored [THEN mp, OF gate] r1
  have r3: "success (aiReview (fst (verify_main JSON_parse [] ?w))) = Some False
      \<and> \<not> is_true (overallPass (the (summary (fst (verify_main JSON_parse [] ?w)))))
      \<and> snd (verify_main JSON_parse [] ?w) = 1"
    by simp
  show ?thesis
    by (intro conjI sreply sparse sreport qparse qreport run r3 [THEN conjunct1]
        r3 [THEN conjunct2, THEN conjunct1] r3 [THEN conjunct2, THEN conjunct2])
qed

text \<open>
  C2 as stated: its "exactly when" fails on the code in two ways, both written into it. A run
  with \<open>--skip-ai-review\<close> passes overall with no review and so no tier at all. And a
  review whose replies are prose yields degraded verdicts without a tier: the summary
  keeps \<open>UNKNOWN\<close>, which is in neither acceptable set, yet the review passes and the run
  passes overall. Its last part fails as well, when the console report of a verdict
  raises: for a reply with the tier \<open>CRITICAL\<close> and a \<open>null\<close> entry among its issues,
  the report raises at \<open>issue.severity\<close>, the handler of the block replaces the verdict
  by \<open>{error: message}\<close>, which has no tier, and the review and the run pass, with
  \<open>CRITICAL\<close> in the summary.
\<close>

theorem overall_pass_counterexample:
  "overallPass (the (summary (fst (verify_main JSON_parse [''--skip-ai-review''] sample_world))))
     = Some True
   \<and> skipped (aiReview (fst (verify_main JSON_parse [''--skip-ai-review''] sample_world)))
     = Some True
   \<and> securityRisk (aiReview (fst (verify_main JSON_parse [''--skip-ai-review''] sample_world)))
     = None
   \<and> review_main JSON_parse report_raises False (replicate 50 (CHR ''x''))
       (gemini_reply ''Looks fine to me.'') (gemini_reply ''Nothing to add.'')
     = (0, Some \<lparr> securityReview = Verdict (rawFallback ''Looks fine to me.''),
                   qualityReview = Some (Verdict (rawFallback ''Nothing to add.'')),
                   sum_securityRisk = JString ''UNKNOWN'', sum_codeQuality = JString ''UNKNOWN'',
                   passesReview = True \<rparr>)
   \<and> securityRisk (aiReview (fst (verify_main JSON_parse []
        (after_review False
           (review_main JSON_parse report_raises False (replicate 50 (CHR ''x''))
              (gemini_reply ''Looks fine to me.'') (gemini_reply ''Nothing to add.''))
           sample_world)))) = Some (JString ''UNKNOWN'')
   \<and> overallPass (the (summary (fst (verify_main JSON_parse []
        (after_review False
           (review_main JSON_parse report_raises False (replicate 50 (CHR ''x''))
              (gemini_reply ''Looks fine to me.'') (gemini_reply ''Nothing to add.''))
           sample_world))))) = Some True
   \<and> get_prop (parseGeminiResponse JSON_parse ''{\"overallRisk\": \"CRITICAL\", \"issues\": [null]}'')
        ''overallRisk'' = Some (JString ''CRITICAL'')
   \<and> report_raises ''overallRisk''
        (parseGeminiResponse JSON_parse ''{\"overallRisk\": \"CRITICAL\", \"issues\": [null]}'')
   \<and> review_main JSON_parse report_raises False (replicate 50 (CHR ''x''))
       (gemini_reply ''{\"overallRisk\": \"CRITICAL\", \"issues\": [null]}'')
       (gemini_reply ''{\"overallQuality\": \"GOOD\", \"issues\": []}'')
     = (0, Some \<lparr> securityReview = ReviewError RuntimeTypeError,
                   qualityReview = Some (Verdict (JObject [(''overallQuality'', JString ''GOOD''),
                                                           (''issues'', JArray [])])),
                   sum_securityRisk = JString ''CRITICAL'', sum_codeQuality = JString ''GOOD'',
                   passesReview = True \<rparr>)
   \<and> securityRisk (aiReview (fst (verify_main JSON_parse []
        (after_review False
           (review_main JSON_parse report_raises False (replicate 50 (CHR ''x''))
              (gemini_reply ''{\"overallRisk\": \"CRITICAL\", \"issues\": [null]}'')
              (gemini_reply ''{\"overallQuality\": \"GOOD\", \"issues\": []}''))
           sample_world)))) = Some (JString ''CRITICAL'')
   \<and> overallPass (the (summary (fst (verify_main JSON_parse []
        (after_review False
           (review_main JSON_parse report_raises False (replicate 50 (CHR ''x''))
              (gemini_reply ''{\"overallRisk\": \"CRITICAL\", \"issues\": [null]}'')
              (gemini_reply ''{\"overallQuality\": \"GOOD\", \"issues\": []}''))
           sample_world))))) = Some True
   \<and> snd (verify_main JSON_parse []
        (after_review False
           (review_main JSON_parse report_raises False (replicate 50 (CHR ''x''))
              (gemini_reply ''{\"overallRisk\": \"CRITICAL\", \"issues\": [null]}'')
              (gemini_reply ''{\"overallQuality\": \"GOOD\", \"issues\": []}''))
           sample_world)) = 0"
  by code_simp

text \<open>
  The exit code and \<open>overallPass\<close> part ways when a summary print raises. A reply whose
  risk tier is an object with a member named \<open>toString\<close> is copied into the summary of
  the review document; the report of the block raises on it, so the review passes, and
  the final print of the review script raises again: the script has written
  \<open>passesReview = true\<close> and exits with code 1. The verification run reads the
  document, records \<open>overallPass = true\<close>, writes its record, and then raises on the
  same tier in its own summary: exit code 1.
\<close>

lemma exit_code_after_summary_print_raises:
  "review_main JSON_parse report_raises True (replicate 50 (CHR ''x''))
       (gemini_reply ''{\"overallRisk\": {\"toString\": 1}}'') NoReplyIn30s
     = (1, Some \<lparr> securityReview = ReviewError RuntimeTypeError, qualityReview = None,
                   sum_securityRisk = JObject [(''toString'', JNumber 1 0)],
                   sum_codeQuality = JString ''UNKNOWN'', passesReview = True \<rparr>)
   \<and> overallPass (the (summary (fst (verify_main JSON_parse [''--security-focus'']
        (after_review True
           (review_main JSON_parse report_raises True (replicate 50 (CHR ''x''))
              (gemini_reply ''{\"overallRisk\": {\"toString\": 1}}'') NoReplyIn30s)
           sample_world))))) = Some True
   \<and> snd (verify_main JSON_parse [''--security-focus'']
        (after_review True
           (review_main JSON_parse report_raises True (replicate 50 (CHR ''x''))
              (gemini_reply ''{\"overallRisk\": {\"toString\": 1}}'') NoReplyIn30s)
           sample_world)) = 1"
  by code_simp


section \<open>Files that cannot be hashed\<close>

lemma obj_set_keys: "fst ` set (obj_set kvs k v) = insert k (fst ` set kvs)"
  by (induction kvs k v rule: obj_set.induct) auto

lemma hash_files_keys:
  "fst ` set (hash_files w acc files)
     \<subseteq> fst ` set acc \<union> {f \<in> set files. hashFile w f \<noteq> None}"
proof (induction files arbitrary: acc)
  case Nil
  show ?case by simp
next
  case (Cons fl rest)
  show ?case
  proof (cases "hashFile w fl")
    case None
    with Cons.IH [of acc] show ?thesis by auto
  next
    case (Some h)
    show ?thesis
    proof (cases "h = []")
      case True
      with Some Cons.IH [of acc] show ?thesis by auto
    next
      case False
      with Some Cons.IH [of "obj_set acc fl h"] show ?thesis
        by (auto simp: obj_set_keys)
    qed
  qed
qed

lemma hash_files_without:
  "hashFile w f = None \<Longrightarrow> hash_files w acc (removeAll f files) = hash_files w acc files"
  by (induction files arbitrary: acc) (auto split: option.splits)

lemma check_files_missing:
  "set (missing (check_files w results entries)) \<subseteq> set (missing results) \<union> fst ` set entries"
proof (induction w results entries rule: check_files.induct)
  case (1 w results)
  show ?case by simp
next
  case (2 w results filePath expectedHash rest)
  show ?case
  proof (cases "existsSync w filePath")
    case False
    with 2(1) show ?thesis by auto
  next
    case True
    show ?thesis
    proof (cases "hashFile w filePath = Some expectedHash")
      case same: True
      with True 2(2) show ?thesis by auto
    next
      case differs: False
      with True 2(3) show ?thesis by auto
    qed
  qed
qed

lemma check_files_modified:
  "fst ` set (modified (check_files w results entries))
     \<subseteq> fst ` set (modified results) \<union> fst ` set entries"
proof (induction w results entries rule: check_files.induct)
  case (1 w results)
  show ?case by simp
next
  case (2 w results filePath expectedHash rest)
  show ?case
  proof (cases "existsSync w filePath")
    case False
    with 2(1) show ?thesis by auto
  next
    case True
    show ?thesis
    proof (cases "hashFile w filePath = Some expectedHash")
      case same: True
      with True 2(2) show ?thesis by auto
    next
      case differs: False
      with True 2(3) show ?thesis by auto
    qed
  qed
qed

lemma check_files_count:
  "verified (check_files w results entries) + length (modified (check_files w results entries))
     + length (missing (check_files w results entries))
   = verified results + length (modified results) + length (missing results) + length entries"
proof (induction w results entries rule: check_files.induct)
  case (1 w results)
  show ?case by simp
next
  case (2 w results filePath expectedHash rest)
  show ?case
  proof (cases "existsSync w filePath")
    case False
    with 2(1) show ?thesis by simp
  next
    case True
    show ?thesis
    proof (cases "hashFile w filePath = Some expectedHash")
      case same: True
      with True 2(2) show ?thesis by simp
    next
      case differs: False
      with True 2(3) show ?thesis by simp
    qed
  qed
qed

lemma hashFile_found_files [simp]:
  "hashFile (w \<lparr> found_files := fs \<rparr>) p = hashFile w p"
  by (simp add: hashFile_def split: disk_entry.splits)

lemma hash_files_found_files [simp]:
  "hash_files (w \<lparr> found_files := fs \<rparr>) acc files = hash_files w acc files"
  by (induction files arbitrary: acc) (simp_all split: option.splits)

lemma runCommand_found_files [simp]:
  "runCommand (w \<lparr> found_files := fs \<rparr>) command = runCommand w command"
  by (simp add: runCommand_def)

lemma script_missing_found_files [simp]:
  "script_missing P (w \<lparr> found_files := fs \<rparr>) name = script_missing P w name"
  by (simp add: script_missing_def)

lemma gates_found_files [simp]:
  "runTests P opts (w \<lparr> found_files := fs \<rparr>) = runTests P opts w"
  "runLint P opts (w \<lparr> found_files := fs \<rparr>) = runLint P opts w"
  "runAudit (w \<lparr> found_files := fs \<rparr>) = runAudit w"
  "runAiReview opts (w \<lparr> found_files := fs \<rparr>) = runAiReview opts w"
  by (simp_all add: runTests_def runLint_def runAudit_def runAiReview_def existsSync_def
      cong: option.case_cong sum.case_cong)

lemma files_verify_main:
  "files_hashes (fst (verify_main P args w)) = hash_files w [] (found_files w)"
  "files_count (fst (verify_main P args w)) = length (hash_files w [] (found_files w))"
  by (simp_all add: verify_main_def Let_def)

text \<open>
  C10. A discovered file that \<open>hashFile\<close> cannot read gets no entry in the snapshot and
  is not counted. The ship phase walks the snapshot's entries only, so it neither
  verifies that file nor reports it as modified or missing, and the entries it does
  classify are exactly the counted ones. The run is otherwise unchanged: record and exit
  code are those of a run in which the file had not been discovered.
\<close>

theorem unhashable_file_is_dropped:
  assumes "hashFile w f = None"
  shows "f \<notin> fst ` set (files_hashes (fst (verify_main P args w)))
       \<and> files_count (fst (verify_main P args w))
           = length (files_hashes (fst (verify_main P args w)))
       \<and> f \<notin> fst ` set (modified (verifyFileIntegrity w' (fst (verify_main P args w))))
       \<and> f \<notin> set (missing (verifyFileIntegrity w' (fst (verify_main P args w))))
       \<and> verified (verifyFileIntegrity w' (fst (verify_main P args w)))
           + length (modified (verifyFileIntegrity w' (fst (verify_main P args w))))
           + length (missing (verifyFileIntegrity w' (fst (verify_main P args w))))
           = files_count (fst (verify_main P args w))
       \<and> verify_main P args w
           = verify_main P args (w \<lparr> found_files := removeAll f (found_files w) \<rparr>)"
proof -
  let ?st = "fst (verify_main P args w)"
  have keys: "f \<notin> fst ` set (files_hashes ?st)"
    using hash_files_keys [of w "[]" "found_files w"] assms
    by (auto simp: files_verify_main)
  have count: "files_count ?st = length (files_hashes ?st)"
    by (simp add: files_verify_main)
  have modified: "f \<notin> fst ` set (modified (verifyFileIntegrity w' ?st))"
  proof
    assume "f \<in> fst ` set (modified (verifyFileIntegrity w' ?st))"
    then have "f \<in> fst ` set (modified \<lparr> verified = 0, modified = [], missing = [],
                   total = length (files_hashes ?st) \<rparr>) \<union> fst ` set (files_hashes ?st)"
      unfolding verifyFileIntegrity_def using check_files_modified by blast
    with keys show False by simp
  qed
  have missing: "f \<notin> set (missing (verifyFileIntegrity w' ?st))"
  proof
    assume "f \<in> set (missing (verifyFileIntegrity w' ?st))"
    then have "f \<in> set (missing \<lparr> verified = 0, modified = [], missing = [],
                   total = length (files_hashes ?st) \<rparr>) \<union> fst ` set (files_hashes ?st)"
      unfolding verifyFileIntegrity_def using check_files_missing by blast
    with keys show False by simp
  qed
  have total: "verified (verifyFileIntegrity w' ?st)
           + length (modified (verifyFileIntegrity w' ?st))
           + length (missing (verifyFileIntegrity w' ?st)) = files_count ?st"
    unfolding verifyFileIntegrity_def check_files_count by (simp add: count)
  have same: "verify_main P args w
           = verify_main P args (w \<lparr> found_files := removeAll f (found_files w) \<rparr>)"
    by (simp add: verify_main_def Let_def hash_files_without [OF assms])
  from keys count modified missing total same show ?thesis
    by blast
qed


theorem unhashable_file_is_dropped_witness:
  "hashFile (sample_world \<lparr> found_files := [''src/a.js'', ''src/b.js''],
                file_at := (\<lambda>p. if p = ''src/a.js'' then Content ''let a = 1''
                                else if p = ''src/b.js'' then Unreadable else NoEntry) \<rparr>)
      ''src/b.js'' = None
   \<and> files_hashes (fst (verify_main JSON_parse [''--skip-ai-review'']
         (sample_world \<lparr> found_files := [''src/a.js'', ''src/b.js''],
                file_at := (\<lambda>p. if p = ''src/a.js'' then Content ''let a = 1''
                                else if p = ''src/b.js'' then Unreadable else NoEntry) \<rparr>)))
       = [(''src/a.js'', ''let a = 1'')]
   \<and> ''src/b.js'' \<notin> fst ` set (files_hashes (fst (verify_main JSON_parse [''--skip-ai-review'']
         (sample_world \<lparr> found_files := [''src/a.js'', ''src/b.js''],
                file_at := (\<lambda>p. if p = ''src/a.js'' then Content ''let a = 1''
                                else if p = ''src/b.js'' then Unreadable else NoEntry) \<rparr>))))
   \<and> files_count (fst (verify_main JSON_parse [''--skip-ai-review'']
         (sample_world \<lparr> found_files := [''src/a.js'', ''src/b.js''],
                file_at := (\<lambda>p. if p = ''src/a.js'' then Content ''let a = 1''
                                else if p = ''src/b.js'' then Unreadable else NoEntry) \<rparr>))) = 1
   \<and> snd (verify_main JSON_parse [''--skip-ai-review'']
         (sample_world \<lparr> found_files := [''src/a.js'', ''src/b.js''],
                file_at := (\<lambda>p. if p = ''src/a.js'' then Content ''let a = 1''
                                else if p = ''src/b.js'' then Unreadable else NoEntry) \<rparr>)) = 0"
proof -
  let ?w = "sample_world \<lparr> found_files := [''src/a.js'', ''src/b.js''],
                file_at := (\<lambda>p. if p = ''src/a.js'' then Content ''let a = 1''
                                else if p = ''src/b.js'' then Unreadable else NoEntry) \<rparr>"
  have h: "hashFile ?w ''src/b.js'' = None"
    by (simp add: hashFile_def)
  have hashes: "files_hashes (fst (verify_main JSON_parse [''--skip-ai-review''] ?w))
       = [(''src/a.js'', ''let a = 1'')]"
    by code_simp
  have code: "snd (verify_main JSON_parse [''--skip-ai-review''] ?w) = 0"
    by code_simp
  from unhashable_file_is_dropped [OF h, where P = JSON_parse and args = "[''--skip-ai-review'']"]
  have "''src/b.js'' \<notin> fst ` set (files_hashes (fst (verify_main JSON_parse [''--skip-ai-review''] ?w)))"
    and "files_count (fst (verify_main JSON_parse [''--skip-ai-review''] ?w))
         = length (files_hashes (fst (verify_main JSON_parse [''--skip-ai-review''] ?w)))"
    by blast+
  with h hashes code show ?thesis
    by simp
qed


section \<open>Properties of the ship run\<close>

lemma check_files_keeps:
  "set (modified results) \<subseteq> set (modified (check_files w results entries))"
  "set (missing results) \<subseteq> set (missing (check_files w results entries))"
proof (induction w results entries rule: check_files.induct)
  case (1 w results)
  { case 1 show ?case by simp }
  { case 2 show ?case by simp }
next
  case (2 w results filePath expectedHash rest)
  {
    case 1
    show ?case
    proof (cases "existsSync w filePath")
      case False
      with "2.IH"(1) show ?thesis by auto
    next
      case True
      show ?thesis
      proof (cases "hashFile w filePath = Some expectedHash")
        case same: True
        with True "2.IH"(3) show ?thesis by auto
      next
        case differs: False
        with True "2.IH"(5) show ?thesis by auto
      qed
    qed
  }
  {
    case 2
    show ?case
    proof (cases "existsSync w filePath")
      case False
      with "2.IH"(2) show ?thesis by auto
    next
      case True
      show ?thesis
      proof (cases "hashFile w filePath = Some expectedHash")
        case same: True
        with True "2.IH"(4) show ?thesis by auto
      next
        case differs: False
        with True "2.IH"(6) show ?thesis by auto
      qed
    qed
  }
qed


lemma hashFile_exists: "hashFile w f = Some a \<Longrightarrow> existsSync w f"
  by (auto simp: hashFile_def existsSync_def split: disk_entry.splits)

lemma check_files_reports_modified:
  assumes "(f, e) \<in> set entries" and "hashFile w f = Some a" and "a \<noteq> e"
  shows "(f, take 8 e @ ''...'', take 8 a @ ''...'') \<in> set (modified (check_files w results entries))"
  using assms
proof (induction w results entries rule: check_files.induct)
  case (1 w results)
  then show ?case by simp
next
  case (2 w results filePath expectedHash rest)
  show ?case
  proof (cases "(f, e) = (filePath, expectedHash)")
    case True
    with "2.prems" have ex: "existsSync w filePath" and cur: "hashFile w filePath = Some a"
      and ne: "hashFile w filePath \<noteq> Some expectedHash"
      using hashFile_exists by auto
    let ?r = "results \<lparr> modified := modified results @
                [(filePath, take 8 expectedHash @ ''...'', take 8 a @ ''...'')] \<rparr>"
    have "(filePath, take 8 expectedHash @ ''...'', take 8 a @ ''...'') \<in> set (modified ?r)"
      by simp
    then have "(filePath, take 8 expectedHash @ ''...'', take 8 a @ ''...'')
               \<in> set (modified (check_files w ?r rest))"
      using check_files_keeps(1) by blast
    with True ex cur ne show ?thesis
      by simp
  next
    case False
    with "2.prems" have mem: "(f, e) \<in> set rest"
      by auto
    show ?thesis
    proof (cases "existsSync w filePath")
      case absent: False
      with "2.IH"(1) mem "2.prems" show ?thesis by simp
    next
      case True
      show ?thesis
      proof (cases "hashFile w filePath = Some expectedHash")
        case same: True
        with True "2.IH"(2) mem "2.prems" show ?thesis by simp
      next
        case differs: False
        with True "2.IH"(3) mem "2.prems" show ?thesis by simp
      qed
    qed
  qed
qed

lemma check_files_reports_missing:
  assumes "(f, e) \<in> set entries" and "\<not> existsSync w f"
  shows "f \<in> set (missing (check_files w results entries))"
  using assms
proof (induction w results entries rule: check_files.induct)
  case (1 w results)
  then show ?case by simp
next
  case (2 w results filePath expectedHash rest)
  show ?case
  proof (cases "f = filePath")
    case True
    let ?r = "results \<lparr> missing := missing results @ [filePath] \<rparr>"
    have "filePath \<in> set (missing ?r)"
      by simp
    then have "filePath \<in> set (missing (check_files w ?r rest))"
      using check_files_keeps(2) by blast
    with True "2.prems" show ?thesis
      by simp
  next
    case False
    with "2.prems" have mem: "(f, e) \<in> set rest"
      by auto
    show ?thesis
    proof (cases "existsSync w filePath")
      case absent: False
      with "2.IH"(1) mem "2.prems" show ?thesis by simp
    next
      case True
      show ?thesis
      proof (cases "hashFile w filePath = Some expectedHash")
        case same: True
        with True "2.IH"(2) mem "2.prems" show ?thesis by simp
      next
        case differs: False
        with True "2.IH"(3) mem "2.prems" show ?thesis by simp
      qed
    qed
  qed
qed

lemma statePath_default: "statePath (ship_options_of args) = DEFAULT_STATE_PATH"
  by (simp add: ship_options_of_def)

lemma no_pr_event_in_status:
  "\<not> list_ex pr_event (map (\<lambda>(gate, passed). GateStatus gate passed) gates)"
  "\<not> list_ex pr_event (map (\<lambda>(file, expected, actual). ModifiedFile file expected actual) ms)"
  "\<not> list_ex pr_event (map MissingFile fs)"
  by (auto simp: list_ex_iff)

lemma release_is_pr_event: "release_event e \<Longrightarrow> pr_event e"
  by (cases e) simp_all

lemma no_pr_no_release: "\<not> list_ex pr_event evs \<Longrightarrow> \<not> list_ex release_event evs"
  using release_is_pr_event by (auto simp: list_ex_iff)

lemma ship_gates_failed:
  assumes "state_file w DEFAULT_STATE_PATH = Stored state"
    and "\<not> list_all snd (checkGates state)"
  shows "snd (ship_main args w) = 1"
    and "\<not> list_ex pr_event (fst (ship_main args w))"
  using assms
  by (simp_all add: ship_main_def loadVerifyState_def statePath_default Let_def
      no_pr_event_in_status)

lemma ship_modified:
  assumes "state_file w DEFAULT_STATE_PATH = Stored state"
    and "list_all snd (checkGates state)"
    and "modified (verifyFileIntegrity w state) \<noteq> []"
  shows "snd (ship_main args w) = 1"
    and "\<not> list_ex pr_event (fst (ship_main args w))"
    and "(f, e, a) \<in> set (modified (verifyFileIntegrity w state))
         \<Longrightarrow> ModifiedFile f e a \<in> set (fst (ship_main args w))"
  using assms
  by (simp_all add: ship_main_def loadVerifyState_def statePath_default Let_def
      no_pr_event_in_status) force

lemma ship_missing:
  assumes "state_file w DEFAULT_STATE_PATH = Stored state"
    and "list_all snd (checkGates state)"
    and "missing (verifyFileIntegrity w state) \<noteq> []"
  shows "snd (ship_main args w) = 1"
    and "\<not> list_ex pr_event (fst (ship_main args w))"
    and "modified (verifyFileIntegrity w state) = [] \<Longrightarrow> f \<in> set (missing (verifyFileIntegrity w state))
         \<Longrightarrow> MissingFile f \<in> set (fst (ship_main args w))"
  using assms
  by (simp_all add: ship_main_def loadVerifyState_def statePath_default Let_def
      no_pr_event_in_status)


lemma gates_all: 
  "list_all snd (checkGates state) \<longleftrightarrow>
     flag state overallPass \<and> flag state testsPass \<and> flag state lintPass \<and> flag state auditPass"
  by (simp add: checkGates_def)

lemma ship_denied:
  assumes "state_file w DEFAULT_STATE_PATH = Stored state"
    and "\<not> list_all snd (checkGates state)
         \<or> modified (verifyFileIntegrity w state) \<noteq> []
         \<or> missing (verifyFileIntegrity w state) \<noteq> []"
  shows "snd (ship_main args w) = 1 \<and> \<not> list_ex pr_event (fst (ship_main args w))"
proof (cases "list_all snd (checkGates state)")
  case False
  with assms(1) show ?thesis
    using ship_gates_failed by blast
next
  case True
  show ?thesis
  proof (cases "modified (verifyFileIntegrity w state) = []")
    case False
    with assms(1) True show ?thesis
      using ship_modified(1,2) by blast
  next
    case empty: True
    with assms(2) True have "missing (verifyFileIntegrity w state) \<noteq> []"
      by blast
    with assms(1) True show ?thesis
      using ship_missing(1,2) by blast
  qed
qed

text \<open>
  C4, as the code has it. A record-listed file whose content hashes differently, or that
  is absent from disk, always makes the run end with exit code 1 and without a release
  action. The integrity check itself takes place only when the four gate flags of the
  record are true: then the differing file is classified as modified and reported with
  the first eight characters of the expected and of the actual digest, and the absent
  file is classified as missing; the missing files are reported when no file is
  modified.
\<close>

theorem ship_integrity_violation:
  assumes loaded: "state_file w DEFAULT_STATE_PATH = Stored state"
    and listed: "(f, expected) \<in> set (files_hashes state)"
  shows "((hashFile w f = Some actual \<and> actual \<noteq> expected) \<or> \<not> existsSync w f
           \<longrightarrow> snd (ship_main args w) = 1 \<and> \<not> list_ex release_event (fst (ship_main args w)))
       \<and> (list_all snd (checkGates state) \<and> hashFile w f = Some actual \<and> actual \<noteq> expected
           \<longrightarrow> (f, take 8 expected @ ''...'', take 8 actual @ ''...'')
                 \<in> set (modified (verifyFileIntegrity w state))
               \<and> ModifiedFile f (take 8 expected @ ''...'') (take 8 actual @ ''...'')
                 \<in> set (fst (ship_main args w)))
       \<and> (list_all snd (checkGates state) \<and> \<not> existsSync w f
           \<longrightarrow> f \<in> set (missing (verifyFileIntegrity w state))
               \<and> (modified (verifyFileIntegrity w state) = []
                    \<longrightarrow> MissingFile f \<in> set (fst (ship_main args w))))"
proof -
  have classified_modified:
    "(f, take 8 expected @ ''...'', take 8 actual @ ''...'')
       \<in> set (modified (verifyFileIntegrity w state))"
    if "hashFile w f = Some actual" "actual \<noteq> expected"
    unfolding verifyFileIntegrity_def
    using listed that by (rule check_files_reports_modified)
  have classified_missing: "f \<in> set (missing (verifyFileIntegrity w state))"
    if "\<not> existsSync w f"
    unfolding verifyFileIntegrity_def
    using listed that by (rule check_files_reports_missing)
  have denied: "snd (ship_main args w) = 1 \<and> \<not> list_ex release_event (fst (ship_main args w))"
    if "(hashFile w f = Some actual \<and> actual \<noteq> expected) \<or> \<not> existsSync w f"
  proof -
    from that classified_modified classified_missing
    have "modified (verifyFileIntegrity w state) \<noteq> []
          \<or> missing (verifyFileIntegrity w state) \<noteq> []"
      by auto
    with loaded have "snd (ship_main args w) = 1 \<and> \<not> list_ex pr_event (fst (ship_main args w))"
      using ship_denied by blast
    then show ?thesis
      using no_pr_no_release by blast
  qed
  have reported_modified:
    "ModifiedFile f (take 8 expected @ ''...'') (take 8 actual @ ''...'')
       \<in> set (fst (ship_main args w))"
    if "list_all snd (checkGates state)" "hashFile w f = Some actual" "actual \<noteq> expected"
  proof -
    from that have m: "(f, take 8 expected @ ''...'', take 8 actual @ ''...'')
       \<in> set (modified (verifyFileIntegrity w state))"
      using classified_modified by blast
    then have "modified (verifyFileIntegrity w state) \<noteq> []"
      by auto
    from ship_modified(3) [OF loaded that(1) this m] show ?thesis .
  qed
  have reported_missing: "MissingFile f \<in> set (fst (ship_main args w))"
    if "list_all snd (checkGates state)" "\<not> existsSync w f"
      "modified (verifyFileIntegrity w state) = []"
  proof -
    from that have m: "f \<in> set (missing (verifyFileIntegrity w state))"
      using classified_missing by blast
    then have "missing (verifyFileIntegrity w state) \<noteq> []"
      by auto
    from ship_missing(3) [OF loaded that(1) this that(3) m] show ?thesis .
  qed
  from denied classified_modified reported_modified classified_missing reported_missing
  show ?thesis
    by blast
qed

theorem ship_integrity_violation_witness:
  "state_file (holding passing_record (tampered project_world)) DEFAULT_STATE_PATH
     = Stored passing_record
   \<and> (''src/a.js'', ''export const a = 1'') \<in> set (files_hashes passing_record)
   \<and> list_all snd (checkGates passing_record)
   \<and> hashFile (holding passing_record (tampered project_world)) ''src/a.js''
       = Some ''console.log(666)''
   \<and> ModifiedFile ''src/a.js'' ''export c...'' ''console....''
       \<in> set (fst (ship_main [''--create-pr''] (holding passing_record (tampered project_world))))
   \<and> snd (ship_main [''--create-pr''] (holding passing_record (tampered project_world))) = 1
   \<and> \<not> list_ex release_event
         (fst (ship_main [''--create-pr''] (holding passing_record (tampered project_world))))
   \<and> \<not> existsSync (holding passing_record (tampered project_world)) ''src/b.js''
   \<and> ''src/b.js'' \<in> set (missing (verifyFileIntegrity
         (holding passing_record (tampered project_world)) passing_record))
   \<and> modified (verifyFileIntegrity
         (holding passing_record
            (project_world \<lparr> file_at := (\<lambda>p. if p = ''src/b.js'' then NoEntry
                                              else file_at project_world p) \<rparr>))
         passing_record) = []
   \<and> MissingFile ''src/b.js''
       \<in> set (fst (ship_main [''--create-pr'']
            (holding passing_record
               (project_world \<lparr> file_at := (\<lambda>p. if p = ''src/b.js'' then NoEntry
                                                 else file_at project_world p) \<rparr>))))"
proof -
  let ?w = "holding passing_record (tampered project_world)"
  let ?w' = "holding passing_record
               (project_world \<lparr> file_at := (\<lambda>p. if p = ''src/b.js'' then NoEntry
                                                 else file_at project_world p) \<rparr>)"
  have loaded': "state_file ?w' DEFAULT_STATE_PATH = Stored passing_record"
    by (simp add: holding_def)
  have gone': "\<not> existsSync ?w' ''src/b.js''"
    by code_simp
  have intact': "modified (verifyFileIntegrity ?w' passing_record) = []"
    by code_simp
  have loaded: "state_file ?w DEFAULT_STATE_PATH = Stored passing_record"
    by (simp add: holding_def)
  have a: "(''src/a.js'', ''export const a = 1'') \<in> set (files_hashes passing_record)"
    by code_simp
  have b: "(''src/b.js'', ''export const b = 2'') \<in> set (files_hashes passing_record)"
    by code_simp
  have gates: "list_all snd (checkGates passing_record)"
    by code_simp
  have edited: "hashFile ?w ''src/a.js'' = Some ''console.log(666)''"
    by code_simp
  have differs: "''console.log(666)'' \<noteq> ''export const a = 1''"
    by simp
  have gone: "\<not> existsSync ?w ''src/b.js''"
    by code_simp
  have p1: "take 8 ''export const a = 1'' @ ''...'' = ''export c...''"
    and p2: "take 8 ''console.log(666)'' @ ''...'' = ''console....''"
    by simp_all
  from ship_integrity_violation [OF loaded a, where actual = "''console.log(666)''"
      and args = "[''--create-pr'']"] gates edited differs
  have "ModifiedFile ''src/a.js'' (take 8 ''export const a = 1'' @ ''...'')
          (take 8 ''console.log(666)'' @ ''...'') \<in> set (fst (ship_main [''--create-pr''] ?w))"
    and "snd (ship_main [''--create-pr''] ?w) = 1"
    and "\<not> list_ex release_event (fst (ship_main [''--create-pr''] ?w))"
    by blast+
  moreover from ship_integrity_violation [OF loaded b, where args = "[''--create-pr'']"] gates gone
  have "''src/b.js'' \<in> set (missing (verifyFileIntegrity ?w passing_record))"
    by blast
  moreover from ship_integrity_violation [OF loaded' b, where args = "[''--create-pr'']"]
    gates gone' intact'
  have "MissingFile ''src/b.js'' \<in> set (fst (ship_main [''--create-pr''] ?w'))"
    by blast
  ultimately show ?thesis
    using loaded a gates edited gone intact' unfolding p1 p2 by blast
qed

text \<open>
  C4 as stated fails on the code. With a gate flag false the run ends before the
  integrity check, so the edited and the deleted file are not classified or reported.
  And with the gates passed, the run ends after the modified files are reported, so the
  deleted file is not.
\<close>

theorem ship_integrity_counterexample:
  "hashFile (holding failing_record (tampered project_world)) ''src/a.js''
     = Some ''console.log(666)''
   \<and> (''src/a.js'', ''export const a = 1'') \<in> set (files_hashes failing_record)
   \<and> ship_main [] (holding failing_record (tampered project_world))
     = ([LoadedState DEFAULT_STATE_PATH ''2026-01-01T00:00:00.000Z'',
         GateStatus ''verificationPassed'' False, GateStatus ''testsPass'' False,
         GateStatus ''lintPass'' True, GateStatus ''auditPass'' True, GatesFailed], 1)
   \<and> \<not> existsSync (holding passing_record (tampered project_world)) ''src/b.js''
   \<and> (''src/b.js'', ''export const b = 2'') \<in> set (files_hashes passing_record)
   \<and> ship_main [] (holding passing_record (tampered project_world))
     = ([LoadedState DEFAULT_STATE_PATH ''2026-01-01T00:00:00.000Z'',
         GateStatus ''verificationPassed'' True, GateStatus ''testsPass'' True,
         GateStatus ''lintPass'' True, GateStatus ''auditPass'' True,
         IntegritySummary 0 2,
         ModifiedFile ''src/a.js'' ''export c...'' ''console....''], 1)"
  by code_simp


lemma flag_verify_main:
  "flag (fst (verify_main P args w)) f = is_true (f (the (summary (fst (verify_main P args w)))))"
  by (simp add: flag_def verify_main_def Let_def)

lemma review_flag_in_overall:
  "\<not> is_true (aiReviewPass (the (summary (fst (verify_main P args w)))))
   \<Longrightarrow> \<not> flag (fst (verify_main P args w)) overallPass"
  unfolding flag_verify_main
  by (simp add: verify_main_def Let_def summarise_def is_true_def js_and_def)

text \<open>
  C5. A ship run is denied when one of the gate flags it reads from the record's summary
  is false, or when a listed file is modified or missing. Every such run ends with exit
  code 1 before \<open>createPullRequest\<close> is reached: its events hold neither the call of
  \<open>gh pr create\<close> nor the dry-run echo of it, nor any other event of
  \<open>createPullRequest\<close>. The summary's remaining flag,
  \<open>aiReviewPass\<close>, is covered through \<open>overallPass\<close>: in a record written by verify,
  \<open>overallPass\<close> is false whenever \<open>aiReviewPass\<close> is.
\<close>

theorem denied_ship_never_releases:
  assumes "state_file w DEFAULT_STATE_PATH = Stored state"
    and "\<not> flag state overallPass \<or> \<not> flag state testsPass \<or> \<not> flag state lintPass
         \<or> \<not> flag state auditPass
         \<or> modified (verifyFileIntegrity w state) \<noteq> []
         \<or> missing (verifyFileIntegrity w state) \<noteq> []"
  shows "snd (ship_main args w) = 1
       \<and> \<not> list_ex release_event (fst (ship_main args w))
       \<and> \<not> list_ex pr_event (fst (ship_main args w))
       \<and> (\<not> is_true (aiReviewPass (the (summary (fst (verify_main P vargs vw)))))
            \<longrightarrow> \<not> flag (fst (verify_main P vargs vw)) overallPass)"
proof -
  from assms(2) have "\<not> list_all snd (checkGates state)
         \<or> modified (verifyFileIntegrity w state) \<noteq> []
         \<or> missing (verifyFileIntegrity w state) \<noteq> []"
    unfolding gates_all by blast
  with assms(1) have "snd (ship_main args w) = 1
       \<and> \<not> list_ex pr_event (fst (ship_main args w))"
    by (rule ship_denied)
  then show ?thesis
    using review_flag_in_overall no_pr_no_release by blast
qed

theorem denied_ship_never_releases_witness:
  "state_file (holding failing_record project_world) DEFAULT_STATE_PATH = Stored failing_record
   \<and> \<not> flag failing_record testsPass
   \<and> ship_main [''--create-pr'', ''--dry-run''] (holding failing_record project_world)
     = ([DryRunBanner, LoadedState DEFAULT_STATE_PATH ''2026-01-01T00:00:00.000Z'',
         GateStatus ''verificationPassed'' False, GateStatus ''testsPass'' False,
         GateStatus ''lintPass'' True, GateStatus ''auditPass'' True, GatesFailed], 1)
   \<and> snd (ship_main [''--create-pr'', ''--dry-run''] (holding failing_record project_world)) = 1
   \<and> \<not> list_ex release_event
         (fst (ship_main [''--create-pr'', ''--dry-run''] (holding failing_record project_world)))
   \<and> list_ex release_event
         (fst (ship_main [''--create-pr'', ''--dry-run'']
            (holding passing_record
               (project_world \<lparr> sh := (\<lambda>command. if command = ''git branch --show-current''
                                                   then Inr ''feature/x'' else Inr []) \<rparr>))))
   \<and> \<not> is_true (aiReviewPass (the (summary (fst (verify_main JSON_parse []
         (after_review False
            (review_main JSON_parse (\<lambda>tier v. False) False (replicate 50 (CHR ''x''))
               (gemini_reply ''{\"overallRisk\": \"CRITICAL\"}'') (gemini_reply ''{}''))
            sample_world))))))
   \<and> \<not> flag (fst (verify_main JSON_parse []
         (after_review False
            (review_main JSON_parse (\<lambda>tier v. False) False (replicate 50 (CHR ''x''))
               (gemini_reply ''{\"overallRisk\": \"CRITICAL\"}'') (gemini_reply ''{}''))
            sample_world))) overallPass"
proof -
  let ?w = "holding failing_record project_world"
  let ?vw = "after_review False
            (review_main JSON_parse (\<lambda>tier v. False) False (replicate 50 (CHR ''x''))
               (gemini_reply ''{\"overallRisk\": \"CRITICAL\"}'') (gemini_reply ''{}''))
            sample_world"
  have review: "\<not> is_true (aiReviewPass (the (summary (fst (verify_main JSON_parse [] ?vw)))))"
    by code_simp
  have loaded: "state_file ?w DEFAULT_STATE_PATH = Stored failing_record"
    by (simp add: holding_def)
  have failed: "\<not> flag failing_record testsPass"
    by code_simp
  then have hyp: "\<not> flag failing_record overallPass \<or> \<not> flag failing_record testsPass
         \<or> \<not> flag failing_record lintPass \<or> \<not> flag failing_record auditPass
         \<or> modified (verifyFileIntegrity ?w failing_record) \<noteq> []
         \<or> missing (verifyFileIntegrity ?w failing_record) \<noteq> []"
    by blast
  have run: "ship_main [''--create-pr'', ''--dry-run''] ?w
     = ([DryRunBanner, LoadedState DEFAULT_STATE_PATH ''2026-01-01T00:00:00.000Z'',
         GateStatus ''verificationPassed'' False, GateStatus ''testsPass'' False,
         GateStatus ''lintPass'' True, GateStatus ''auditPass'' True, GatesFailed], 1)"
    by code_simp
  have shipped: "list_ex release_event
         (fst (ship_main [''--create-pr'', ''--dry-run'']
            (holding passing_record
               (project_world \<lparr> sh := (\<lambda>command. if command = ''git branch --show-current''
                                                   then Inr ''feature/x'' else Inr []) \<rparr>))))"
    by code_simp
  from denied_ship_never_releases [OF loaded hyp, where args = "[''--create-pr'', ''--dry-run'']"
      and P = JSON_parse and vargs = "[]" and vw = ?vw] review
  have "snd (ship_main [''--create-pr'', ''--dry-run''] ?w) = 1"
    and "\<not> list_ex release_event (fst (ship_main [''--create-pr'', ''--dry-run''] ?w))"
    and "\<not> flag (fst (verify_main JSON_parse [] ?vw)) overallPass"
    by blast+
  with loaded failed run shipped review show ?thesis
    by blast
qed

text \<open>
  C8. The header of the ship script documents \<open>--state <path>\<close>, but the options never
  read it: \<open>statePath\<close> is the default path whatever the arguments, so the record is
  loaded from the default path and what the named path holds is never looked at.
\<close>

theorem state_option_is_ignored:
  "statePath (ship_options_of (''--state'' # path # rest)) = DEFAULT_STATE_PATH
   \<and> loadVerifyState (ship_options_of (''--state'' # path # rest)) w
       = loadVerifyState (ship_options_of []) w
   \<and> ship_main [''--state'', ''custom/state.json'']
        (project_world \<lparr> state_file := (\<lambda>p. if p = ''custom/state.json''
                                             then Stored passing_record else Absent) \<rparr>)
       = ([StateNotFound ''.workflow/state/verify-state.json''], 1)"
proof -
  have "ship_main [''--state'', ''custom/state.json'']
        (project_world \<lparr> state_file := (\<lambda>p. if p = ''custom/state.json''
                                             then Stored passing_record else Absent) \<rparr>)
       = ([StateNotFound ''.workflow/state/verify-state.json''], 1)"
    by code_simp
  moreover have "loadVerifyState (ship_options_of (''--state'' # path # rest)) w
       = loadVerifyState (ship_options_of []) w"
    by (simp add: loadVerifyState_def statePath_default cong: stored.case_cong)
  ultimately show ?thesis
    by (simp add: statePath_default)
qed

theorem state_option_is_ignored_witness:
  "statePath (ship_options_of [''--state'', ''custom/state.json''])
     = ''.workflow/state/verify-state.json''
   \<and> ship_main [''--state'', ''custom/state.json'']
        (project_world \<lparr> state_file := (\<lambda>p. if p = ''custom/state.json''
                                             then Stored passing_record else Absent) \<rparr>)
       = ([StateNotFound ''.workflow/state/verify-state.json''], 1)"
  using state_option_is_ignored [of "''custom/state.json''" "[]"]
  by (simp add: DEFAULT_STATE_PATH_def)


end
